theory Spec2Isabelle
  imports Main "HOL-Library.Word"
begin

section \<open>The virtual file driver dispatch layer of HDF5 1.8.20 (H5FDint.c)\<close>

text \<open>
  The development embeds the five dispatch routines of \<^verbatim>\<open>H5FDint.c\<close>
  (\<^verbatim>\<open>H5FD_read\<close>, \<^verbatim>\<open>H5FD_write\<close>, \<^verbatim>\<open>H5FD_set_eoa\<close>, \<^verbatim>\<open>H5FD_get_eoa\<close>,
  \<^verbatim>\<open>H5FD_get_eof\<close>) and the superblock signature search
  \<^verbatim>\<open>H5FD_locate_signature\<close> built on them.

  Conventions of the embedding:
  \<^item> \<^verbatim>\<open>haddr_t\<close> is an unsigned 64-bit integer, so every address sum wraps modulo
    \<open>2 ^ 64\<close>; \<^verbatim>\<open>size_t\<close> is the 64-bit \<^verbatim>\<open>size_t\<close> of an LP64 target.
  \<^item> A routine returning \<^verbatim>\<open>herr_t\<close> returns \<open>failure + unit\<close> together with the file
    handle as the call leaves it. \<^verbatim>\<open>HGOTO_ERROR(maj, min, FAIL, ...)\<close> is
    \<open>Inl (H5E_error maj min)\<close>.
  \<^item> \<^verbatim>\<open>HDassert\<close> is the C \<^verbatim>\<open>assert\<close>. In a build without \<^verbatim>\<open>NDEBUG\<close> a violated assertion
    aborts the program, which is \<open>Inl Assertion_failed\<close>; in a build with \<^verbatim>\<open>NDEBUG\<close> the
    assertion is not compiled and the routine goes on.
  \<^item> The driver is the function-pointer table \<^verbatim>\<open>file->cls\<close>. Its functions act on
    the driver's private part of the handle, of an arbitrary type \<open>'d\<close>.
  \<^item> The handle carries a trace \<open>calls\<close> of the driver callbacks that were invoked
    through the table, oldest first. The trace is the only addition to the C
    structure; every call through \<^verbatim>\<open>file->cls\<close> goes through one of the \<open>cls_\<close>
    functions below, which performs the call and appends it to the trace.
  \<^item> Pointers are always valid: the assertions \<^verbatim>\<open>HDassert(file && file->cls)\<close> and
    \<^verbatim>\<open>HDassert(buf)\<close> hold by typing. \<^verbatim>\<open>FUNC_ENTER\<close> finds the package initialised.
\<close>

unbundle bit_operations_syntax

subsection \<open>Addresses, allocation classes, failures\<close>

type_synonym haddr_t = "64 word"
type_synonym size_t = "64 word"
type_synonym uint8_t = "8 word"
type_synonym herr_t = int
type_synonym hid_t = int

text \<open>
  Modelled from the spec: the declaration of \<^verbatim>\<open>HADDR_UNDEF\<close> (H5public.h) is not among
  the sources. The sentinel for an undefined address is "the maximum representable
  integer" of the address type, and \<^verbatim>\<open>H5F_addr_defined\<close> tests for it.
\<close>

definition HADDR_UNDEF :: haddr_t where
  "HADDR_UNDEF = - 1"

definition H5F_addr_defined :: "haddr_t \<Rightarrow> bool" where
  "H5F_addr_defined X = (X \<noteq> HADDR_UNDEF)"

text \<open>The allocation classes of \<^verbatim>\<open>H5FD_mem_t\<close>; the routines only pass them on.\<close>

datatype H5FD_mem_t =
  H5FD_MEM_DEFAULT | H5FD_MEM_SUPER | H5FD_MEM_BTREE | H5FD_MEM_DRAW
  | H5FD_MEM_GHEAP | H5FD_MEM_LHEAP | H5FD_MEM_OHDR

datatype H5E_major = H5E_IO | H5E_VFL | H5E_ARGS

datatype H5E_minor =
  H5E_CANTINIT | H5E_OVERFLOW | H5E_READERROR | H5E_WRITEERROR | H5E_CANTGET

datatype failure = Assertion_failed | H5E_error H5E_major H5E_minor

subsection \<open>Build configuration, transfer property list\<close>

text \<open>
  Four things are fixed when the library is built and are parameters here, since their
  declarations are not among the sources: whether \<^verbatim>\<open>NDEBUG\<close> is defined, whether
  \<^verbatim>\<open>H5_HAVE_PARALLEL\<close> is defined, the bytes of \<^verbatim>\<open>H5F_SIGNATURE\<close>, and the number
  \<^verbatim>\<open>H5F_SIGNATURE_LEN\<close> of them that is read and compared.
\<close>

record H5_build =
  NDEBUG :: bool
  H5_HAVE_PARALLEL :: bool
  H5F_SIGNATURE :: "uint8_t list"
  H5F_SIGNATURE_LEN :: size_t

text \<open>\<^verbatim>\<open>HDassert(X)\<close> lets the routine go on: it is not compiled, or \<open>X\<close> holds.\<close>

definition HDassert :: "H5_build \<Rightarrow> bool \<Rightarrow> bool" where
  "HDassert cfg X = (NDEBUG cfg \<or> X)"

text \<open>
  A property list: its identifier (\<^verbatim>\<open>H5P_PLIST_ID\<close>) and whether its class is a
  dataset transfer class (\<^verbatim>\<open>H5P_class_isa(H5P_CLASS(dxpl), H5P_CLS_DATASET_XFER_g)\<close>).
\<close>

record H5P_genplist_t =
  plist_id :: hid_t
  isa_dataset_xfer :: bool

subsection \<open>The driver table and the file handle\<close>

record 'd H5FD_class_t =
  get_eoa :: "'d \<Rightarrow> H5FD_mem_t \<Rightarrow> haddr_t"
  set_eoa :: "'d \<Rightarrow> H5FD_mem_t \<Rightarrow> haddr_t \<Rightarrow> herr_t \<times> 'd"
  get_eof :: "('d \<Rightarrow> haddr_t) option"
  read :: "'d \<Rightarrow> H5FD_mem_t \<Rightarrow> hid_t \<Rightarrow> haddr_t \<Rightarrow> size_t \<Rightarrow> uint8_t list
             \<Rightarrow> herr_t \<times> 'd \<times> uint8_t list"
  write_fn :: "'d \<Rightarrow> H5FD_mem_t \<Rightarrow> hid_t \<Rightarrow> haddr_t \<Rightarrow> size_t \<Rightarrow> uint8_t list
             \<Rightarrow> herr_t \<times> 'd"

datatype driver_call =
  Call_get_eoa H5FD_mem_t
  | Call_set_eoa H5FD_mem_t haddr_t
  | Call_get_eof
  | Call_read H5FD_mem_t hid_t haddr_t size_t
  | Call_write H5FD_mem_t hid_t haddr_t size_t

record 'd H5FD_t =
  cls :: "'d H5FD_class_t"
  base_addr :: haddr_t
  maxaddr :: haddr_t
  driver :: 'd
  calls :: "driver_call list"

text \<open>The calls through the table: \<^verbatim>\<open>(file->cls->get_eoa)(file, type)\<close> and so on.\<close>

definition cls_get_eoa :: "'d H5FD_t \<Rightarrow> H5FD_mem_t \<Rightarrow> haddr_t \<times> 'd H5FD_t" where
  "cls_get_eoa file type =
     (get_eoa (cls file) (driver file) type,
      file\<lparr>calls := calls file @ [Call_get_eoa type]\<rparr>)"

definition cls_set_eoa :: "'d H5FD_t \<Rightarrow> H5FD_mem_t \<Rightarrow> haddr_t \<Rightarrow> herr_t \<times> 'd H5FD_t" where
  "cls_set_eoa file type addr =
     (case set_eoa (cls file) (driver file) type addr of
        (ret, d) \<Rightarrow>
          (ret, file\<lparr>driver := d, calls := calls file @ [Call_set_eoa type addr]\<rparr>))"

definition cls_get_eof :: "('d \<Rightarrow> haddr_t) \<Rightarrow> 'd H5FD_t \<Rightarrow> haddr_t \<times> 'd H5FD_t" where
  "cls_get_eof get file =
     (get (driver file), file\<lparr>calls := calls file @ [Call_get_eof]\<rparr>)"

definition cls_read ::
  "'d H5FD_t \<Rightarrow> H5FD_mem_t \<Rightarrow> hid_t \<Rightarrow> haddr_t \<Rightarrow> size_t \<Rightarrow> uint8_t list
     \<Rightarrow> herr_t \<times> uint8_t list \<times> 'd H5FD_t" where
  "cls_read file type dxpl_id addr sz buf =
     (case read (cls file) (driver file) type dxpl_id addr sz buf of
        (ret, d, buf') \<Rightarrow>
          (ret, buf',
           file\<lparr>driver := d, calls := calls file @ [Call_read type dxpl_id addr sz]\<rparr>))"

definition cls_write ::
  "'d H5FD_t \<Rightarrow> H5FD_mem_t \<Rightarrow> hid_t \<Rightarrow> haddr_t \<Rightarrow> size_t \<Rightarrow> uint8_t list
     \<Rightarrow> herr_t \<times> 'd H5FD_t" where
  "cls_write file type dxpl_id addr sz buf =
     (case write_fn (cls file) (driver file) type dxpl_id addr sz buf of
        (ret, d) \<Rightarrow>
          (ret, file\<lparr>driver := d, calls := calls file @ [Call_write type dxpl_id addr sz]\<rparr>))"

subsection \<open>The dispatch routines\<close>

text \<open>
  \<^verbatim>\<open>H5FD_read\<close>. The result is the status, the buffer as the call leaves it, and the
  handle. The early return for \<open>sz = 0\<close> is compiled only without
  \<^verbatim>\<open>H5_HAVE_PARALLEL\<close>. The sum \<open>addr + base_addr file + sz\<close> is the 64-bit sum of
  the source.
\<close>

definition H5FD_read ::
  "H5_build \<Rightarrow> 'd H5FD_t \<Rightarrow> H5P_genplist_t \<Rightarrow> H5FD_mem_t \<Rightarrow> haddr_t \<Rightarrow> size_t
     \<Rightarrow> uint8_t list \<Rightarrow> (failure + unit) \<times> uint8_t list \<times> 'd H5FD_t" where
  "H5FD_read cfg file dxpl type addr sz buf =
     (if \<not> HDassert cfg (isa_dataset_xfer dxpl) then (Inl Assertion_failed, buf, file)
      else if \<not> H5_HAVE_PARALLEL cfg \<and> 0 = sz then (Inr (), buf, file)
      else
        case cls_get_eoa file type of
          (eoa, file1) \<Rightarrow>
            if HADDR_UNDEF = eoa then (Inl (H5E_error H5E_VFL H5E_CANTINIT), buf, file1)
            else if addr + base_addr file1 + sz > eoa
              then (Inl (H5E_error H5E_ARGS H5E_OVERFLOW), buf, file1)
            else
              case cls_read file1 type (plist_id dxpl) (addr + base_addr file1) sz buf of
                (ret, buf', file2) \<Rightarrow>
                  if ret < 0 then (Inl (H5E_error H5E_VFL H5E_READERROR), buf', file2)
                  else (Inr (), buf', file2))"

text \<open>\<^verbatim>\<open>H5FD_write\<close>: the same steps, with the driver's \<^verbatim>\<open>write\<close>.\<close>

definition H5FD_write ::
  "H5_build \<Rightarrow> 'd H5FD_t \<Rightarrow> H5P_genplist_t \<Rightarrow> H5FD_mem_t \<Rightarrow> haddr_t \<Rightarrow> size_t
     \<Rightarrow> uint8_t list \<Rightarrow> (failure + unit) \<times> 'd H5FD_t" where
  "H5FD_write cfg file dxpl type addr sz buf =
     (if \<not> HDassert cfg (isa_dataset_xfer dxpl) then (Inl Assertion_failed, file)
      else if \<not> H5_HAVE_PARALLEL cfg \<and> 0 = sz then (Inr (), file)
      else
        case cls_get_eoa file type of
          (eoa, file1) \<Rightarrow>
            if HADDR_UNDEF = eoa then (Inl (H5E_error H5E_VFL H5E_CANTINIT), file1)
            else if addr + base_addr file1 + sz > eoa
              then (Inl (H5E_error H5E_ARGS H5E_OVERFLOW), file1)
            else
              case cls_write file1 type (plist_id dxpl) (addr + base_addr file1) sz buf of
                (ret, file2) \<Rightarrow>
                  if ret < 0 then (Inl (H5E_error H5E_VFL H5E_WRITEERROR), file2)
                  else (Inr (), file2))"

text \<open>
  \<^verbatim>\<open>H5FD_set_eoa\<close>: the relative address is asserted to be defined and at most
  \<^verbatim>\<open>file->maxaddr\<close>, then handed to the driver as an absolute address. The build is
  an argument for the assertion alone.
\<close>

definition H5FD_set_eoa ::
  "H5_build \<Rightarrow> 'd H5FD_t \<Rightarrow> H5FD_mem_t \<Rightarrow> haddr_t \<Rightarrow> (failure + unit) \<times> 'd H5FD_t" where
  "H5FD_set_eoa cfg file type addr =
     (if \<not> HDassert cfg (H5F_addr_defined addr \<and> addr \<le> maxaddr file)
      then (Inl Assertion_failed, file)
      else
        case cls_set_eoa file type (addr + base_addr file) of
          (ret, file1) \<Rightarrow>
            if ret < 0 then (Inl (H5E_error H5E_VFL H5E_CANTINIT), file1)
            else (Inr (), file1))"

text \<open>
  \<^verbatim>\<open>H5FD_get_eoa\<close> and \<^verbatim>\<open>H5FD_get_eof\<close> return an address, \<^verbatim>\<open>HADDR_UNDEF\<close> on
  failure, as the C functions do.
\<close>

definition H5FD_get_eoa :: "'d H5FD_t \<Rightarrow> H5FD_mem_t \<Rightarrow> haddr_t \<times> 'd H5FD_t" where
  "H5FD_get_eoa file type =
     (case cls_get_eoa file type of
        (ret_value, file1) \<Rightarrow>
          if HADDR_UNDEF = ret_value then (HADDR_UNDEF, file1)
          else (ret_value - base_addr file1, file1))"

definition H5FD_get_eof :: "'d H5FD_t \<Rightarrow> haddr_t \<times> 'd H5FD_t" where
  "H5FD_get_eof file =
     (case get_eof (cls file) of
        Some get \<Rightarrow>
          (case cls_get_eof get file of
             (ret_value, file1) \<Rightarrow>
               if HADDR_UNDEF = ret_value then (HADDR_UNDEF, file1)
               else (ret_value - base_addr file1, file1))
      | None \<Rightarrow> (maxaddr file - base_addr file, file))"

subsection \<open>The signature search\<close>

text \<open>
  The first loop of \<^verbatim>\<open>H5FD_locate_signature\<close>,
  \<^verbatim>\<open>for(maxpow = 0; addr; maxpow++) addr >>= 1;\<close>. It leaves \<open>addr = 0\<close>. The
  counters \<open>n\<close> and \<open>maxpow\<close> are \<^verbatim>\<open>unsigned\<close> in the source and natural numbers here:
  they stay below 65, so nothing wraps and no shift reaches the width of \<^verbatim>\<open>haddr_t\<close>.
\<close>

function maxpow_loop :: "haddr_t \<Rightarrow> nat \<Rightarrow> nat" where
  "maxpow_loop addr maxpow =
     (if addr \<noteq> 0 then maxpow_loop (drop_bit 1 addr) (maxpow + 1) else maxpow)"
  by pat_completeness auto
termination
proof (relation "measure (\<lambda>(addr, maxpow). unat addr)")
  show "wf (measure (\<lambda>(addr :: haddr_t, maxpow :: nat). unat addr))"
    by simp
next
  fix addr :: haddr_t and maxpow :: nat
  assume "addr \<noteq> 0"
  then have "0 < unat addr"
    by (simp add: unat_gt_0)
  then have "unat addr div 2 < unat addr"
    by simp
  then show "((drop_bit 1 addr, maxpow + 1), (addr, maxpow))
               \<in> measure (\<lambda>(addr, maxpow). unat addr)"
    by (simp add: drop_bit_eq_div unat_div)
qed

declare maxpow_loop.simps [simp del]

text \<open>The offset probed at loop index \<open>n\<close>: \<^verbatim>\<open>(8 == n) ? 0 : (haddr_t)1 << n\<close>.\<close>

definition candidate :: "nat \<Rightarrow> haddr_t" where
  "candidate n = (if 8 = n then 0 else push_bit n 1)"

text \<open>
  Every failure inside the search is reported by the search as
  \<^verbatim>\<open>HGOTO_ERROR(H5E_IO, H5E_CANTINIT, FAIL, ...)\<close>; an abort stays an abort.
\<close>

fun locate_failure :: "failure \<Rightarrow> failure" where
  "locate_failure Assertion_failed = Assertion_failed"
| "locate_failure (H5E_error major minor) = H5E_error H5E_IO H5E_CANTINIT"

text \<open>
  \<^verbatim>\<open>HDmemcmp(s1, s2, n)\<close> compares the first \<open>n\<close> bytes of two buffers; the search only
  tests the result against 0, so the sign of a non-zero result is left at 1.
\<close>

definition HDmemcmp :: "uint8_t list \<Rightarrow> uint8_t list \<Rightarrow> size_t \<Rightarrow> int" where
  "HDmemcmp s1 s2 n = (if take (unat n) s1 = take (unat n) s2 then 0 else 1)"

text \<open>
  The second loop, \<^verbatim>\<open>for(n = 8; n < maxpow; n++)\<close>, from the state in which \<open>n\<close>,
  \<open>addr\<close> and \<open>buf\<close> have the given values. It ends with a failure, or with the
  values of \<open>n\<close> and \<open>addr\<close> at the \<^verbatim>\<open>break\<close> or at the exit of the loop.
\<close>

function search_loop ::
  "H5_build \<Rightarrow> H5P_genplist_t \<Rightarrow> nat \<Rightarrow> nat \<Rightarrow> 'd H5FD_t \<Rightarrow> haddr_t \<Rightarrow> uint8_t list
     \<Rightarrow> (failure + nat \<times> haddr_t) \<times> 'd H5FD_t" where
  "search_loop cfg dxpl maxpow n file addr buf =
     (if n < maxpow then
        (case H5FD_set_eoa cfg file H5FD_MEM_SUPER (candidate n + H5F_SIGNATURE_LEN cfg) of
           (Inl e, file1) \<Rightarrow> (Inl (locate_failure e), file1)
         | (Inr u, file1) \<Rightarrow>
             (case H5FD_read cfg file1 dxpl H5FD_MEM_SUPER (candidate n)
                     (H5F_SIGNATURE_LEN cfg) buf of
                (Inl e, buf1, file2) \<Rightarrow> (Inl (locate_failure e), file2)
              | (Inr u, buf1, file2) \<Rightarrow>
                  if HDmemcmp buf1 (H5F_SIGNATURE cfg) (H5F_SIGNATURE_LEN cfg) = 0
                  then (Inr (n, candidate n), file2)
                  else search_loop cfg dxpl maxpow (n + 1) file2 (candidate n) buf1))
      else (Inr (n, addr), file))"
  by pat_completeness auto
termination
  by (relation "measure (\<lambda>(cfg, dxpl, maxpow, n, file, addr, buf). maxpow - n)") auto

declare search_loop.simps [simp del]

text \<open>
  The computation of \<^verbatim>\<open>maxpow\<close>: the first loop, started at 0, then
  \<^verbatim>\<open>maxpow = MAX(maxpow, 9)\<close>.
\<close>

definition signature_maxpow :: "haddr_t \<Rightarrow> nat" where
  "signature_maxpow addr = max (maxpow_loop addr 0) 9"

text \<open>
  \<^verbatim>\<open>H5FD_locate_signature\<close>. The argument \<open>buf\<close> is the content of the local array
  \<^verbatim>\<open>buf\<close> before the first read; \<open>addr\<close> is 0 after the first loop. The result
  \<open>Inr a\<close> is \<^verbatim>\<open>SUCCEED\<close> with \<^verbatim>\<open>*sig_addr = a\<close>; a search without a match ends with
  \<open>Inr HADDR_UNDEF\<close>.
\<close>

definition H5FD_locate_signature ::
  "H5_build \<Rightarrow> 'd H5FD_t \<Rightarrow> H5P_genplist_t \<Rightarrow> uint8_t list
     \<Rightarrow> (failure + haddr_t) \<times> 'd H5FD_t" where
  "H5FD_locate_signature cfg file dxpl buf =
     (case H5FD_get_eof file of
        (addr, file1) \<Rightarrow>
          if HADDR_UNDEF = addr then (Inl (H5E_error H5E_IO H5E_CANTINIT), file1)
          else
            (case H5FD_get_eoa file1 H5FD_MEM_SUPER of
               (eoa, file2) \<Rightarrow>
                 if HADDR_UNDEF = eoa then (Inl (H5E_error H5E_IO H5E_CANTINIT), file2)
                 else
                   (let maxpow = signature_maxpow addr in
                    (case search_loop cfg dxpl maxpow 8 file2 0 buf of
                       (Inl e, file3) \<Rightarrow> (Inl e, file3)
                     | (Inr (n, addr'), file3) \<Rightarrow>
                         if n \<ge> maxpow then
                           (case H5FD_set_eoa cfg file3 H5FD_MEM_SUPER eoa of
                              (Inl e, file4) \<Rightarrow> (Inl (locate_failure e), file4)
                            | (Inr u, file4) \<Rightarrow> (Inr HADDR_UNDEF, file4))
                         else (Inr addr', file3)))))"

subsection \<open>A byte store as driver\<close>

text \<open>
  Modelled from the spec: the drivers are not among the sources. This one implements
  the capability set of the Backend Driver Interface over a byte store: the bytes, the
  end of the physical file, one end of allocated address per allocation class, which
  \<^verbatim>\<open>get_eoa\<close> and \<^verbatim>\<open>set_eoa\<close> round-trip, and the driver's own range checks:
  the addresses its \<^verbatim>\<open>set_eoa\<close> accepts and the regions its \<^verbatim>\<open>read\<close> accepts. A
  rejected call fails and leaves the store as it was.
\<close>

record store =
  st_content :: "haddr_t \<Rightarrow> uint8_t"
  st_eof :: haddr_t
  st_eoa :: "H5FD_mem_t \<Rightarrow> haddr_t"
  st_accepts :: "H5FD_mem_t \<Rightarrow> haddr_t \<Rightarrow> bool"
  st_readable :: "haddr_t \<Rightarrow> size_t \<Rightarrow> bool"

definition fetch :: "store \<Rightarrow> haddr_t \<Rightarrow> nat \<Rightarrow> uint8_t list" where
  "fetch st addr n = map (\<lambda>i. st_content st (addr + of_nat i)) [0..<n]"

definition store_set_eoa :: "store \<Rightarrow> H5FD_mem_t \<Rightarrow> haddr_t \<Rightarrow> herr_t \<times> store" where
  "store_set_eoa st type addr =
     (if st_accepts st type addr then (0, st\<lparr>st_eoa := (st_eoa st)(type := addr)\<rparr>)
      else (- 1, st))"

definition store_read ::
  "store \<Rightarrow> H5FD_mem_t \<Rightarrow> hid_t \<Rightarrow> haddr_t \<Rightarrow> size_t \<Rightarrow> uint8_t list
     \<Rightarrow> herr_t \<times> store \<times> uint8_t list" where
  "store_read st type dxpl_id addr sz buf =
     (if st_readable st addr sz then (0, st, fetch st addr (unat sz) @ drop (unat sz) buf)
      else (- 1, st, buf))"

definition store_write ::
  "store \<Rightarrow> H5FD_mem_t \<Rightarrow> hid_t \<Rightarrow> haddr_t \<Rightarrow> size_t \<Rightarrow> uint8_t list \<Rightarrow> herr_t \<times> store" where
  "store_write st type dxpl_id addr sz buf =
     (0, st\<lparr>st_content :=
              (\<lambda>a. if unat (a - addr) < min (unat sz) (length buf)
                   then buf ! unat (a - addr) else st_content st a)\<rparr>)"

definition store_cls :: "store H5FD_class_t" where
  "store_cls =
     \<lparr>get_eoa = st_eoa, set_eoa = store_set_eoa, get_eof = Some st_eof,
      read = store_read, write_fn = store_write\<rparr>"

subsection \<open>Example builds and handles\<close>

text \<open>
  Builds with the signature of the HDF5 file format: a serial and a parallel one with
  assertions, and a serial one with \<^verbatim>\<open>NDEBUG\<close>. A dataset transfer property list, and
  handles over byte stores filled with zeros.
\<close>

definition serial_build :: H5_build where
  "serial_build =
     \<lparr>NDEBUG = False, H5_HAVE_PARALLEL = False, H5F_SIGNATURE = [137, 72, 68, 70, 13, 10, 26, 10],
      H5F_SIGNATURE_LEN = 8\<rparr>"


definition production_build :: H5_build where
  "production_build = serial_build\<lparr>NDEBUG := True\<rparr>"

definition xfer_plist :: H5P_genplist_t where
  "xfer_plist = \<lparr>plist_id = 5, isa_dataset_xfer = True\<rparr>"

definition blank_store :: "haddr_t \<Rightarrow> haddr_t \<Rightarrow> store" where
  "blank_store e v =
     \<lparr>st_content = (\<lambda>a. 0), st_eof = e, st_eoa = (\<lambda>t. v),
      st_accepts = (\<lambda>t a. True), st_readable = (\<lambda>a s. True)\<rparr>"

text \<open>The same store with the signature of \<open>serial_build\<close> written at one offset.\<close>

definition signed_store :: "haddr_t \<Rightarrow> haddr_t \<Rightarrow> haddr_t \<Rightarrow> store" where
  "signed_store off e v =
     (blank_store e v)
       \<lparr>st_content :=
          (\<lambda>a. if a - off < 8 then H5F_SIGNATURE serial_build ! unat (a - off) else 0)\<rparr>"

definition store_file :: "haddr_t \<Rightarrow> haddr_t \<Rightarrow> store \<Rightarrow> store H5FD_t" where
  "store_file base maxa st =
     \<lparr>cls = store_cls, base_addr = base, maxaddr = maxa, driver = st, calls = []\<rparr>"

text \<open>A store of zeros whose driver reads only below a limit.\<close>

definition read_limited_store :: "haddr_t \<Rightarrow> haddr_t \<Rightarrow> haddr_t \<Rightarrow> store" where
  "read_limited_store lim e v = (blank_store e v)\<lparr>st_readable := (\<lambda>a s. a < lim)\<rparr>"

subsection \<open>Observing a search\<close>

text \<open>The absolute addresses of the driver reads in a trace, in the order of the calls.\<close>

fun read_addrs :: "driver_call list \<Rightarrow> haddr_t list" where
  "read_addrs [] = []"
| "read_addrs (Call_read type dxpl_id addr sz # cs) = addr # read_addrs cs"
| "read_addrs (Call_get_eoa type # cs) = read_addrs cs"
| "read_addrs (Call_set_eoa type addr # cs) = read_addrs cs"
| "read_addrs (Call_get_eof # cs) = read_addrs cs"
| "read_addrs (Call_write type dxpl_id addr sz # cs) = read_addrs cs"

text \<open>
  For a handle over a byte store and a loop index \<open>n\<close>: the store holds the signature at
  the candidate offset; the extension of the end of allocated address to the end of
  the candidate passes the assertion of \<^verbatim>\<open>H5FD_set_eoa\<close> (in a build with \<^verbatim>\<open>NDEBUG\<close>
  there is none); the driver accepts the extension; the read of the candidate is
  accepted by \<^verbatim>\<open>H5FD_read\<close> and by the driver.
\<close>

definition sig_at :: "H5_build \<Rightarrow> store H5FD_t \<Rightarrow> nat \<Rightarrow> bool" where
  "sig_at cfg file n =
     (fetch (driver file) (candidate n + base_addr file) (unat (H5F_SIGNATURE_LEN cfg)) =
        take (unat (H5F_SIGNATURE_LEN cfg)) (H5F_SIGNATURE cfg))"

definition eoa_asserted :: "H5_build \<Rightarrow> store H5FD_t \<Rightarrow> nat \<Rightarrow> bool" where
  "eoa_asserted cfg file n =
     HDassert cfg
       (H5F_addr_defined (candidate n + H5F_SIGNATURE_LEN cfg)
        \<and> candidate n + H5F_SIGNATURE_LEN cfg \<le> maxaddr file)"

definition eoa_accepted :: "H5_build \<Rightarrow> store H5FD_t \<Rightarrow> nat \<Rightarrow> bool" where
  "eoa_accepted cfg file n =
     st_accepts (driver file) H5FD_MEM_SUPER
       (candidate n + H5F_SIGNATURE_LEN cfg + base_addr file)"

definition read_accepted :: "H5_build \<Rightarrow> store H5FD_t \<Rightarrow> nat \<Rightarrow> bool" where
  "read_accepted cfg file n =
     (candidate n + H5F_SIGNATURE_LEN cfg + base_addr file \<noteq> HADDR_UNDEF
      \<and> st_readable (driver file) (candidate n + base_addr file) (H5F_SIGNATURE_LEN cfg))"

text \<open>
  The handle after a probe at index \<open>n\<close> whose two calls succeeded: the end of allocated
  address of the superblock class is at the end of the candidate, and the trace has
  the three driver callbacks of the probe.
\<close>

definition after_probe :: "H5_build \<Rightarrow> H5P_genplist_t \<Rightarrow> nat \<Rightarrow> store H5FD_t \<Rightarrow> store H5FD_t" where
  "after_probe cfg dxpl n file =
     file\<lparr>driver :=
            (driver file)
              \<lparr>st_eoa :=
                 (st_eoa (driver file))
                   (H5FD_MEM_SUPER := candidate n + H5F_SIGNATURE_LEN cfg + base_addr file)\<rparr>,
          calls :=
            calls file @
              [Call_set_eoa H5FD_MEM_SUPER (candidate n + H5F_SIGNATURE_LEN cfg + base_addr file),
               Call_get_eoa H5FD_MEM_SUPER,
               Call_read H5FD_MEM_SUPER (plist_id dxpl) (candidate n + base_addr file)
                 (H5F_SIGNATURE_LEN cfg)]\<rparr>"

section \<open>Properties of the dispatch routines\<close>

subsection \<open>What a transfer does with the driver\<close>

text \<open>
  A transfer that reaches the bounds check with an end of allocated address below the
  64-bit sum \<open>addr + base_addr file + sz\<close> fails with \<^verbatim>\<open>H5E_OVERFLOW\<close>, and the only
  driver callback it has invoked is \<^verbatim>\<open>get_eoa\<close>.
\<close>

lemma read_overflow:
  assumes "isa_dataset_xfer dxpl" and "H5_HAVE_PARALLEL cfg \<or> sz \<noteq> 0"
    and "get_eoa (cls file) (driver file) type \<noteq> HADDR_UNDEF"
    and "addr + base_addr file + sz > get_eoa (cls file) (driver file) type"
  shows "H5FD_read cfg file dxpl type addr sz buf =
           (Inl (H5E_error H5E_ARGS H5E_OVERFLOW), buf,
            file\<lparr>calls := calls file @ [Call_get_eoa type]\<rparr>)"
  using assms by (auto simp add: H5FD_read_def HDassert_def cls_get_eoa_def)

lemma write_overflow:
  assumes "isa_dataset_xfer dxpl" and "H5_HAVE_PARALLEL cfg \<or> sz \<noteq> 0"
    and "get_eoa (cls file) (driver file) type \<noteq> HADDR_UNDEF"
    and "addr + base_addr file + sz > get_eoa (cls file) (driver file) type"
  shows "H5FD_write cfg file dxpl type addr sz buf =
           (Inl (H5E_error H5E_ARGS H5E_OVERFLOW),
            file\<lparr>calls := calls file @ [Call_get_eoa type]\<rparr>)"
  using assms by (auto simp add: H5FD_write_def HDassert_def cls_get_eoa_def)

text \<open>
  A transfer that passes the bounds check invokes the driver's \<^verbatim>\<open>get_eoa\<close> and then
  its \<^verbatim>\<open>read\<close> or \<^verbatim>\<open>write\<close>, with the absolute address.
\<close>

lemma read_forwarded:
  assumes "isa_dataset_xfer dxpl" and "H5_HAVE_PARALLEL cfg \<or> sz \<noteq> 0"
    and "get_eoa (cls file) (driver file) type \<noteq> HADDR_UNDEF"
    and "addr + base_addr file + sz \<le> get_eoa (cls file) (driver file) type"
  shows "calls (snd (snd (H5FD_read cfg file dxpl type addr sz buf))) =
           calls file @ [Call_get_eoa type,
                         Call_read type (plist_id dxpl) (addr + base_addr file) sz]"
  using assms
  by (auto simp add: H5FD_read_def HDassert_def cls_get_eoa_def cls_read_def split: prod.splits)

lemma write_forwarded:
  assumes "isa_dataset_xfer dxpl" and "H5_HAVE_PARALLEL cfg \<or> sz \<noteq> 0"
    and "get_eoa (cls file) (driver file) type \<noteq> HADDR_UNDEF"
    and "addr + base_addr file + sz \<le> get_eoa (cls file) (driver file) type"
  shows "calls (snd (H5FD_write cfg file dxpl type addr sz buf)) =
           calls file @ [Call_get_eoa type,
                         Call_write type (plist_id dxpl) (addr + base_addr file) sz]"
  using assms
  by (auto simp add: H5FD_write_def HDassert_def cls_get_eoa_def cls_write_def split: prod.splits)





subsection \<open>Bounds enforcement\<close>

text \<open>
  Claim C1, as stated, fails when the sum leaves the range of \<^verbatim>\<open>haddr_t\<close>. With
  \<open>base_addr = 512\<close>, a transfer of 32 bytes at the relative address \<open>2 ^ 64 - 528\<close> has
  the sum \<open>2 ^ 64 + 16\<close>, above the end of allocated address 200. The routines compute
  16, the bounds check passes, and the read and the write reach the driver and
  succeed.
\<close>

theorem bounds_enforced_counterexample:
  "(0 :: size_t) < 32
   \<and> get_eoa (cls (store_file 512 (- 2) (blank_store 2048 200)))
        (driver (store_file 512 (- 2) (blank_store 2048 200))) H5FD_MEM_DRAW = 200
   \<and> (200 :: haddr_t) \<noteq> HADDR_UNDEF
   \<and> unat (200 :: haddr_t)
        < unat (- 528 :: haddr_t) + unat (base_addr (store_file 512 (- 2) (blank_store 2048 200)))
          + unat (32 :: size_t)
   \<and> fst (H5FD_read serial_build (store_file 512 (- 2) (blank_store 2048 200)) xfer_plist
            H5FD_MEM_DRAW (- 528) 32 []) = Inr ()
   \<and> calls (snd (snd (H5FD_read serial_build (store_file 512 (- 2) (blank_store 2048 200))
            xfer_plist H5FD_MEM_DRAW (- 528) 32 []))) =
       [Call_get_eoa H5FD_MEM_DRAW, Call_read H5FD_MEM_DRAW 5 (- 16) 32]
   \<and> fst (H5FD_write serial_build (store_file 512 (- 2) (blank_store 2048 200)) xfer_plist
            H5FD_MEM_DRAW (- 528) 32 []) = Inr ()
   \<and> calls (snd (H5FD_write serial_build (store_file 512 (- 2) (blank_store 2048 200))
            xfer_plist H5FD_MEM_DRAW (- 528) 32 [])) =
       [Call_get_eoa H5FD_MEM_DRAW, Call_write H5FD_MEM_DRAW 5 (- 16) 32]"
  by (simp add: H5FD_read_def H5FD_write_def HDassert_def cls_get_eoa_def cls_read_def
      cls_write_def serial_build_def xfer_plist_def store_file_def blank_store_def store_cls_def
      store_read_def store_write_def HADDR_UNDEF_def)

text \<open>
  Claim C1, amended. For every read or write of \<open>sz > 0\<close> bytes on a handle whose driver
  reports a defined end of allocated address for the class: if
  \<open>addr + base_addr + sz\<close>, computed in \<^verbatim>\<open>haddr_t\<close> and so modulo \<open>2 ^ 64\<close>, is above that
  address, the call fails with \<^verbatim>\<open>H5E_ARGS\<close>/\<^verbatim>\<open>H5E_OVERFLOW\<close>. The handle is the one
  given but for a \<^verbatim>\<open>get_eoa\<close> callback in its trace: the driver's \<^verbatim>\<open>read\<close> and
  \<^verbatim>\<open>write\<close> were not invoked, and the buffer is untouched.
\<close>

theorem bounds_enforced:
  assumes "isa_dataset_xfer dxpl" and "0 < sz"
    and "get_eoa (cls file) (driver file) type \<noteq> HADDR_UNDEF"
    and "addr + base_addr file + sz > get_eoa (cls file) (driver file) type"
  shows "H5FD_read cfg file dxpl type addr sz buf =
           (Inl (H5E_error H5E_ARGS H5E_OVERFLOW), buf,
            file\<lparr>calls := calls file @ [Call_get_eoa type]\<rparr>)
         \<and> H5FD_write cfg file dxpl type addr sz buf =
           (Inl (H5E_error H5E_ARGS H5E_OVERFLOW),
            file\<lparr>calls := calls file @ [Call_get_eoa type]\<rparr>)"
proof -
  from \<open>0 < sz\<close> have nz: "H5_HAVE_PARALLEL cfg \<or> sz \<noteq> 0"
    by auto
  show ?thesis
    using read_overflow [OF assms(1) nz assms(3) assms(4)]
      write_overflow [OF assms(1) nz assms(3) assms(4)]
    by simp
qed

theorem bounds_enforced_witness:
  "isa_dataset_xfer xfer_plist \<and> (0 :: size_t) < 16
   \<and> get_eoa (cls (store_file 0 1000 (blank_store 2048 100))) 
        (driver (store_file 0 1000 (blank_store 2048 100))) H5FD_MEM_DRAW \<noteq> HADDR_UNDEF
   \<and> 90 + base_addr (store_file 0 1000 (blank_store 2048 100)) + 16
        > get_eoa (cls (store_file 0 1000 (blank_store 2048 100)))
            (driver (store_file 0 1000 (blank_store 2048 100))) H5FD_MEM_DRAW
   \<and> H5FD_read serial_build (store_file 0 1000 (blank_store 2048 100)) xfer_plist
        H5FD_MEM_DRAW 90 16 [] =
       (Inl (H5E_error H5E_ARGS H5E_OVERFLOW), [],
        (store_file 0 1000 (blank_store 2048 100))\<lparr>calls := [Call_get_eoa H5FD_MEM_DRAW]\<rparr>)
   \<and> H5FD_write serial_build (store_file 0 1000 (blank_store 2048 100)) xfer_plist
        H5FD_MEM_DRAW 90 16 [] =
       (Inl (H5E_error H5E_ARGS H5E_OVERFLOW),
        (store_file 0 1000 (blank_store 2048 100))\<lparr>calls := [Call_get_eoa H5FD_MEM_DRAW]\<rparr>)"
  using bounds_enforced [of xfer_plist 16 "store_file 0 1000 (blank_store 2048 100)"
      H5FD_MEM_DRAW 90 serial_build "[]"]
  by (simp add: xfer_plist_def store_file_def blank_store_def store_cls_def HADDR_UNDEF_def)

text \<open>
  Claim C9. The sum of the bounds check wraps modulo \<open>2 ^ 64\<close>. Whenever the exact
  sum of \<open>addr\<close>, \<open>base_addr\<close> and \<open>sz\<close> leaves the range of \<^verbatim>\<open>haddr_t\<close> and the wrapped
  sum is at most the end of allocated address, the exact sum is above that address,
  yet the call does not fail with \<^verbatim>\<open>H5E_OVERFLOW\<close>: it is forwarded to the driver's
  \<^verbatim>\<open>read\<close> or \<^verbatim>\<open>write\<close>. The witness is such a call: 16 bytes at address
  \<open>2 ^ 64 - 8\<close> with an end of allocated address of 100.
\<close>

theorem bounds_check_wraps:
  assumes "isa_dataset_xfer dxpl" and "0 < sz"
    and "get_eoa (cls file) (driver file) type \<noteq> HADDR_UNDEF"
    and "2 ^ 64 \<le> unat addr + unat (base_addr file) + unat sz"
    and "addr + base_addr file + sz \<le> get_eoa (cls file) (driver file) type"
  shows "unat (get_eoa (cls file) (driver file) type)
           < unat addr + unat (base_addr file) + unat sz
         \<and> fst (H5FD_read cfg file dxpl type addr sz buf) \<noteq> Inl (H5E_error H5E_ARGS H5E_OVERFLOW)
         \<and> calls (snd (snd (H5FD_read cfg file dxpl type addr sz buf))) =
             calls file @ [Call_get_eoa type,
                           Call_read type (plist_id dxpl) (addr + base_addr file) sz]
         \<and> fst (H5FD_write cfg file dxpl type addr sz buf) \<noteq> Inl (H5E_error H5E_ARGS H5E_OVERFLOW)
         \<and> calls (snd (H5FD_write cfg file dxpl type addr sz buf)) =
             calls file @ [Call_get_eoa type,
                           Call_write type (plist_id dxpl) (addr + base_addr file) sz]"
proof -
  from \<open>0 < sz\<close> have nz: "H5_HAVE_PARALLEL cfg \<or> sz \<noteq> 0"
    by auto
  have "unat (get_eoa (cls file) (driver file) type) < 2 ^ 64"
    using unsigned_less [of "get_eoa (cls file) (driver file) type"] by simp
  with assms(4) have exact: "unat (get_eoa (cls file) (driver file) type)
      < unat addr + unat (base_addr file) + unat sz"
    by linarith
  have r: "fst (H5FD_read cfg file dxpl type addr sz buf) \<noteq> Inl (H5E_error H5E_ARGS H5E_OVERFLOW)"
    using assms nz
    by (auto simp add: H5FD_read_def HDassert_def cls_get_eoa_def cls_read_def split: prod.splits)
  have w: "fst (H5FD_write cfg file dxpl type addr sz buf) \<noteq> Inl (H5E_error H5E_ARGS H5E_OVERFLOW)"
    using assms nz
    by (auto simp add: H5FD_write_def HDassert_def cls_get_eoa_def cls_write_def split: prod.splits)
  show ?thesis
    using exact r w read_forwarded [OF assms(1) nz assms(3) assms(5)]
      write_forwarded [OF assms(1) nz assms(3) assms(5)]
    by simp
qed

theorem bounds_check_wraps_witness:
  "isa_dataset_xfer xfer_plist \<and> (0 :: size_t) < 16
   \<and> get_eoa (cls (store_file 0 1000 (blank_store 2048 100)))
        (driver (store_file 0 1000 (blank_store 2048 100))) H5FD_MEM_DRAW \<noteq> HADDR_UNDEF
   \<and> (2 :: nat) ^ 64 \<le> unat (- 8 :: haddr_t)
        + unat (base_addr (store_file 0 1000 (blank_store 2048 100))) + unat (16 :: size_t)
   \<and> - 8 + base_addr (store_file 0 1000 (blank_store 2048 100)) + 16
        \<le> get_eoa (cls (store_file 0 1000 (blank_store 2048 100)))
            (driver (store_file 0 1000 (blank_store 2048 100))) H5FD_MEM_DRAW
   \<and> H5FD_read serial_build (store_file 0 1000 (blank_store 2048 100)) xfer_plist
        H5FD_MEM_DRAW (- 8) 16 [] \<noteq>
       (Inl (H5E_error H5E_ARGS H5E_OVERFLOW), [],
        (store_file 0 1000 (blank_store 2048 100))\<lparr>calls := [Call_get_eoa H5FD_MEM_DRAW]\<rparr>)
   \<and> calls (snd (snd (H5FD_read serial_build (store_file 0 1000 (blank_store 2048 100))
        xfer_plist H5FD_MEM_DRAW (- 8) 16 []))) =
       [Call_get_eoa H5FD_MEM_DRAW, Call_read H5FD_MEM_DRAW 5 (- 8) 16]
   \<and> calls (snd (H5FD_write serial_build (store_file 0 1000 (blank_store 2048 100))
        xfer_plist H5FD_MEM_DRAW (- 8) 16 [])) =
       [Call_get_eoa H5FD_MEM_DRAW, Call_write H5FD_MEM_DRAW 5 (- 8) 16]"
  using bounds_check_wraps [of xfer_plist 16 "store_file 0 1000 (blank_store 2048 100)"
      H5FD_MEM_DRAW "- 8" serial_build "[]"]
  by (auto simp add: xfer_plist_def store_file_def blank_store_def store_cls_def HADDR_UNDEF_def)

subsection \<open>Transfers of no bytes\<close>





subsection \<open>Setting and getting the end of allocated address\<close>

text \<open>
  Claim C8, as stated, fails for a build with \<^verbatim>\<open>NDEBUG\<close>: the assertion is not compiled,
  and \<^verbatim>\<open>H5FD_set_eoa\<close> forwards the address 1001, above \<open>maxaddr = 1000\<close>, to the driver's
  \<^verbatim>\<open>set_eoa\<close> as the absolute address 1009; the undefined address is forwarded too.
\<close>

theorem set_eoa_accepts_only_valid_counterexample:
  "NDEBUG production_build
   \<and> maxaddr (store_file 8 1000 (blank_store 2048 100)) < 1001
   \<and> calls (snd (H5FD_set_eoa production_build (store_file 8 1000 (blank_store 2048 100))
                   H5FD_MEM_SUPER 1001)) =
       [Call_set_eoa H5FD_MEM_SUPER 1009]
   \<and> calls (snd (H5FD_set_eoa production_build (store_file 8 1000 (blank_store 2048 100))
                   H5FD_MEM_SUPER HADDR_UNDEF)) =
       [Call_set_eoa H5FD_MEM_SUPER (HADDR_UNDEF + 8)]"
  by (simp add: H5FD_set_eoa_def HDassert_def cls_set_eoa_def production_build_def
      store_file_def store_cls_def store_set_eoa_def blank_store_def)

text \<open>
  Claim C8, amended. In a build without \<^verbatim>\<open>NDEBUG\<close>, \<^verbatim>\<open>H5FD_set_eoa\<close> with an undefined
  address, or with an address above \<^verbatim>\<open>maxaddr\<close>, stops at its assertion and leaves the
  handle, its trace included, as it was: the address is not forwarded to the driver's
  \<^verbatim>\<open>set_eoa\<close>. A defined address of at most \<^verbatim>\<open>maxaddr\<close> is forwarded as the absolute
  address in every build, and in a build with \<^verbatim>\<open>NDEBUG\<close> so is every address.
\<close>

theorem set_eoa_accepts_only_valid:
  "(\<not> NDEBUG cfg \<and> (addr = HADDR_UNDEF \<or> maxaddr file < addr) \<longrightarrow>
      H5FD_set_eoa cfg file type addr = (Inl Assertion_failed, file))
   \<and> (NDEBUG cfg \<or> (addr \<noteq> HADDR_UNDEF \<and> addr \<le> maxaddr file) \<longrightarrow>
      calls (snd (H5FD_set_eoa cfg file type addr)) =
        calls file @ [Call_set_eoa type (addr + base_addr file)])"
  by (auto simp add: H5FD_set_eoa_def HDassert_def H5F_addr_defined_def cls_set_eoa_def
      split: prod.splits)

theorem set_eoa_accepts_only_valid_witness:
  "\<not> NDEBUG serial_build
   \<and> H5FD_set_eoa serial_build (store_file 8 1000 (blank_store 2048 100)) H5FD_MEM_SUPER
        HADDR_UNDEF =
       (Inl Assertion_failed, store_file 8 1000 (blank_store 2048 100))
   \<and> maxaddr (store_file 8 1000 (blank_store 2048 100)) < 1001
   \<and> H5FD_set_eoa serial_build (store_file 8 1000 (blank_store 2048 100)) H5FD_MEM_SUPER 1001 =
       (Inl Assertion_failed, store_file 8 1000 (blank_store 2048 100))
   \<and> (1000 :: haddr_t) \<noteq> HADDR_UNDEF
   \<and> 1000 \<le> maxaddr (store_file 8 1000 (blank_store 2048 100))
   \<and> calls (snd (H5FD_set_eoa serial_build (store_file 8 1000 (blank_store 2048 100))
                   H5FD_MEM_SUPER 1000)) =
       [Call_set_eoa H5FD_MEM_SUPER 1008]
   \<and> NDEBUG production_build
   \<and> calls (snd (H5FD_set_eoa production_build (store_file 8 1000 (blank_store 2048 100))
                   H5FD_MEM_SUPER 1001)) =
       [Call_set_eoa H5FD_MEM_SUPER 1009]"
  using set_eoa_accepts_only_valid [of serial_build HADDR_UNDEF
      "store_file 8 1000 (blank_store 2048 100)" H5FD_MEM_SUPER]
    set_eoa_accepts_only_valid [of serial_build 1001
      "store_file 8 1000 (blank_store 2048 100)" H5FD_MEM_SUPER]
    set_eoa_accepts_only_valid [of serial_build 1000
      "store_file 8 1000 (blank_store 2048 100)" H5FD_MEM_SUPER]
    set_eoa_accepts_only_valid [of production_build 1001
      "store_file 8 1000 (blank_store 2048 100)" H5FD_MEM_SUPER]
  by (simp add: store_file_def HADDR_UNDEF_def serial_build_def production_build_def)

text \<open>
  Claim C6, as stated, fails when the absolute address \<open>a + base_addr\<close> is the
  sentinel \<^verbatim>\<open>HADDR_UNDEF\<close>. With \<open>base_addr = 1\<close> and \<open>maxaddr = 2 ^ 64 - 2\<close>, the relative
  address \<open>a = 2 ^ 64 - 2\<close> is defined and at most \<^verbatim>\<open>maxaddr\<close>, \<^verbatim>\<open>H5FD_set_eoa\<close> succeeds
  and the driver returns what was set, but \<^verbatim>\<open>H5FD_get_eoa\<close> takes the driver's
  answer for a failure and does not return \<open>a\<close>.
\<close>

theorem eoa_round_trip_counterexample:
  "H5F_addr_defined (- 2)
   \<and> - 2 \<le> maxaddr (store_file 1 (- 2) (blank_store 2048 100))
   \<and> fst (H5FD_set_eoa serial_build (store_file 1 (- 2) (blank_store 2048 100)) H5FD_MEM_SUPER (- 2)) = Inr ()
   \<and> get_eoa store_cls
        (driver (snd (H5FD_set_eoa serial_build (store_file 1 (- 2) (blank_store 2048 100))
                        H5FD_MEM_SUPER (- 2)))) H5FD_MEM_SUPER = - 2 + 1
   \<and> fst (H5FD_get_eoa
             (snd (H5FD_set_eoa serial_build (store_file 1 (- 2) (blank_store 2048 100))
                     H5FD_MEM_SUPER (- 2))) H5FD_MEM_SUPER) \<noteq> - 2"
  by (simp add: H5FD_set_eoa_def HDassert_def H5FD_get_eoa_def cls_set_eoa_def cls_get_eoa_def
      H5F_addr_defined_def HADDR_UNDEF_def store_file_def blank_store_def store_cls_def
      store_set_eoa_def)

text \<open>
  Claim C6, amended. For every handle, class and defined relative address
  \<open>a \<le> maxaddr\<close> whose absolute address \<open>a + base_addr\<close> is not \<^verbatim>\<open>HADDR_UNDEF\<close>: if the
  driver's \<^verbatim>\<open>set_eoa\<close> succeeds and its \<^verbatim>\<open>get_eoa\<close> then returns the address that
  was set, \<^verbatim>\<open>H5FD_set_eoa\<close> succeeds and \<^verbatim>\<open>H5FD_get_eoa\<close> after it returns exactly
  \<open>a\<close>, also when \<open>a + base_addr\<close> wraps.
\<close>

theorem eoa_round_trip:
  assumes "H5F_addr_defined a" and "a \<le> maxaddr file"
    and "set_eoa (cls file) (driver file) type (a + base_addr file) = (ret, d)"
    and "0 \<le> ret"
    and "get_eoa (cls file) d type = a + base_addr file"
    and "a + base_addr file \<noteq> HADDR_UNDEF"
  shows "fst (H5FD_set_eoa cfg file type a) = Inr ()
         \<and> fst (H5FD_get_eoa (snd (H5FD_set_eoa cfg file type a)) type) = a"
  using assms
  by (simp add: H5FD_set_eoa_def HDassert_def H5FD_get_eoa_def cls_set_eoa_def cls_get_eoa_def)

theorem eoa_round_trip_witness:
  "H5F_addr_defined 700
   \<and> 700 \<le> maxaddr (store_file 512 1000 (blank_store 2048 100))
   \<and> set_eoa (cls (store_file 512 1000 (blank_store 2048 100)))
        (driver (store_file 512 1000 (blank_store 2048 100))) H5FD_MEM_OHDR
        (700 + base_addr (store_file 512 1000 (blank_store 2048 100))) =
       (0, (blank_store 2048 100)\<lparr>st_eoa := (\<lambda>t. 100)(H5FD_MEM_OHDR := 1212)\<rparr>)
   \<and> fst (H5FD_set_eoa serial_build (store_file 512 1000 (blank_store 2048 100)) H5FD_MEM_OHDR 700) = Inr ()
   \<and> fst (H5FD_get_eoa
             (snd (H5FD_set_eoa serial_build (store_file 512 1000 (blank_store 2048 100)) H5FD_MEM_OHDR 700))
             H5FD_MEM_OHDR) = 700"
proof -
  have s: "set_eoa (cls (store_file 512 1000 (blank_store 2048 100)))
        (driver (store_file 512 1000 (blank_store 2048 100))) H5FD_MEM_OHDR
        (700 + base_addr (store_file 512 1000 (blank_store 2048 100))) =
       (0, (blank_store 2048 100)\<lparr>st_eoa := (\<lambda>t. 100)(H5FD_MEM_OHDR := 1212)\<rparr>)"
    by (simp add: store_file_def blank_store_def store_cls_def store_set_eoa_def)
  have d: "H5F_addr_defined 700"
    by (simp add: H5F_addr_defined_def HADDR_UNDEF_def)
  have m: "700 \<le> maxaddr (store_file 512 1000 (blank_store 2048 100))"
    by (simp add: store_file_def)
  have g: "get_eoa (cls (store_file 512 1000 (blank_store 2048 100)))
      ((blank_store 2048 100)\<lparr>st_eoa := (\<lambda>t. 100)(H5FD_MEM_OHDR := 1212)\<rparr>) H5FD_MEM_OHDR =
      700 + base_addr (store_file 512 1000 (blank_store 2048 100))"
    by (simp add: store_file_def store_cls_def)
  have u: "700 + base_addr (store_file 512 1000 (blank_store 2048 100)) \<noteq> HADDR_UNDEF"
    by (simp add: store_file_def HADDR_UNDEF_def)
  show ?thesis
    using eoa_round_trip [OF d m s _ g u] d m s by simp
qed

section \<open>Properties of the signature search\<close>

subsection \<open>The value of maxpow\<close>

text \<open>
  The first loop counts the bits of its argument: it adds to \<open>maxpow\<close> the least \<open>N\<close>
  with \<open>addr < 2 ^ N\<close>.
\<close>

lemma least_pow_half:
  fixes x :: nat
  assumes "0 < x"
  shows "(LEAST N. x < 2 ^ N) = Suc (LEAST N. x div 2 < 2 ^ N)"
proof (rule Least_equality)
  have ex: "x div 2 < 2 ^ (x div 2)"
    by (rule less_exp)
  have "x div 2 < 2 ^ (LEAST N. x div 2 < 2 ^ N)"
    using ex by (rule LeastI)
  then show "x < 2 ^ Suc (LEAST N. x div 2 < 2 ^ N)"
    by simp
next
  fix y
  assume y: "x < 2 ^ y"
  show "Suc (LEAST N. x div 2 < 2 ^ N) \<le> y"
  proof (cases y)
    case 0
    with y assms show ?thesis by simp
  next
    case (Suc i)
    with y have "x div 2 < 2 ^ i"
      by simp
    then have "(LEAST N. x div 2 < 2 ^ N) \<le> i"
      by (rule Least_le)
    with Suc show ?thesis by simp
  qed
qed

lemma maxpow_loop_least: "maxpow_loop addr m = m + (LEAST N. unat addr < 2 ^ N)"
proof (induction addr m rule: maxpow_loop.induct)
  case (1 addr maxpow)
  show ?case
  proof (cases "addr = 0")
    case True
    have "(LEAST N. (0 :: nat) < 2 ^ N) = 0"
      by (rule Least_equality) simp_all
    with True show ?thesis
      by (subst maxpow_loop.simps) simp
  next
    case False
    then have pos: "0 < unat addr"
      by (simp add: unat_gt_0)
    have half: "unat (drop_bit 1 addr) = unat addr div 2"
      by (simp add: drop_bit_eq_div unat_div)
    have "maxpow_loop addr maxpow = maxpow_loop (drop_bit 1 addr) (maxpow + 1)"
      using False by (subst maxpow_loop.simps) simp
    also have "\<dots> = maxpow + 1 + (LEAST N. unat (drop_bit 1 addr) < 2 ^ N)"
      using False by (rule "1.IH")
    also have "\<dots> = maxpow + (LEAST N. unat addr < 2 ^ N)"
      unfolding half using least_pow_half [OF pos] by simp
    finally show ?thesis .
  qed
qed

lemma maxpow_loop_le: "maxpow_loop addr 0 \<le> 64"
proof -
  have "unat addr < 2 ^ 64"
    using unsigned_less [of addr] by simp
  then have "(LEAST N. unat addr < 2 ^ N) \<le> 64"
    by (rule Least_le)
  then show ?thesis
    by (simp add: maxpow_loop_least)
qed

lemma signature_maxpow_least:
  "signature_maxpow a = max (LEAST N. unat a < 2 ^ N) 9"
  by (simp add: signature_maxpow_def maxpow_loop_least)

lemma signature_maxpow_bounds: "9 \<le> signature_maxpow a \<and> signature_maxpow a \<le> 64"
  using maxpow_loop_le [of a] by (simp add: signature_maxpow_def)

lemma signature_maxpow_zero: "signature_maxpow 0 = 9"
  by (simp add: signature_maxpow_def maxpow_loop.simps)

lemma signature_maxpow_brackets:
  "unat a < 2 ^ signature_maxpow a
   \<and> (9 < signature_maxpow a \<longrightarrow> 2 ^ (signature_maxpow a - 1) \<le> unat a)"
proof -
  let ?L = "LEAST N. unat a < 2 ^ N"
  have "unat a < 2 ^ unat a"
    by (rule less_exp)
  then have upper: "unat a < 2 ^ ?L"
    by (rule LeastI)
  have "(2 :: nat) ^ ?L \<le> 2 ^ max ?L 9"
    by (intro power_increasing) simp_all
  with upper have "unat a < 2 ^ signature_maxpow a"
    by (simp only: signature_maxpow_least)
  moreover have "2 ^ (signature_maxpow a - 1) \<le> unat a" if "9 < signature_maxpow a"
  proof -
    from that have eq: "signature_maxpow a = ?L" and pos: "0 < ?L"
      by (simp_all add: signature_maxpow_least max_def split: if_splits)
    from pos have "?L - 1 < ?L"
      by simp
    then have "\<not> unat a < 2 ^ (?L - 1)"
      by (rule not_less_Least)
    with eq show ?thesis
      by simp
  qed
  ultimately show ?thesis
    by blast
qed

subsection \<open>The candidates\<close>

lemma candidate_8: "candidate 8 = 0"
  by (simp add: candidate_def)

lemma unat_power_of_two:
  assumes "n < 64"
  shows "unat (2 ^ n :: haddr_t) = 2 ^ n"
proof -
  have "(2 :: haddr_t) ^ n = of_nat (2 ^ n)"
    by simp
  then have "unat ((2 :: haddr_t) ^ n) = 2 ^ n mod 2 ^ 64"
    by (simp only: unat_of_nat) simp
  moreover have "(2 :: nat) ^ n < 2 ^ 64"
    using assms by (intro power_strict_increasing) simp_all
  ultimately show ?thesis
    by (simp only: mod_less)
qed

lemma unat_candidate:
  assumes "9 \<le> n" and "n < 64"
  shows "unat (candidate n) = 2 ^ n"
  using assms by (simp add: candidate_def unat_power_of_two)

lemma candidate_numbers:
  "map (\<lambda>n. unat (candidate n)) [8..<signature_maxpow a] =
     0 # map (\<lambda>n. 2 ^ n) [9..<signature_maxpow a]"
proof -
  from signature_maxpow_bounds [of a]
  have b: "9 \<le> signature_maxpow a" "signature_maxpow a \<le> 64"
    by simp_all
  then have "[8..<signature_maxpow a] = 8 # [9..<signature_maxpow a]"
    by (simp add: upt_conv_Cons)
  moreover have "map (\<lambda>n. unat (candidate n)) [9..<signature_maxpow a] =
      map (\<lambda>n. 2 ^ n) [9..<signature_maxpow a]"
    using b by (intro map_cong) (simp_all add: unat_candidate)
  ultimately show ?thesis
    by (simp add: candidate_8)
qed

lemma candidate_defined: "candidate n \<noteq> HADDR_UNDEF"
proof (cases "n = 0")
  case True
  then show ?thesis
    by (simp add: candidate_def HADDR_UNDEF_def)
next
  case False
  have "odd (- 1 :: haddr_t)"
    by simp
  moreover have "even (candidate n)"
    using False by (simp add: candidate_def even_push_bit_iff)
  ultimately show ?thesis
    unfolding HADDR_UNDEF_def by metis
qed

subsection \<open>The reads of the second loop\<close>

text \<open>
  The dispatch routines keep the base address; \<^verbatim>\<open>H5FD_set_eoa\<close> adds no read to the
  trace, and \<^verbatim>\<open>H5FD_read\<close> adds at most one, at the absolute address.
\<close>

lemma read_addrs_append: "read_addrs (xs @ ys) = read_addrs xs @ read_addrs ys"
  by (induction xs rule: read_addrs.induct) simp_all

lemma set_eoa_keeps:
  assumes "H5FD_set_eoa cfg file type addr = (r, file')"
  shows "base_addr file' = base_addr file \<and> read_addrs (calls file') = read_addrs (calls file)"
  using assms
  by (auto simp add: H5FD_set_eoa_def HDassert_def cls_set_eoa_def read_addrs_append
      split: if_splits prod.splits)

lemma read_keeps_base:
  assumes "H5FD_read cfg file dxpl type addr sz buf = (r, buf', file')"
  shows "base_addr file' = base_addr file"
  using assms
  by (auto simp add: H5FD_read_def HDassert_def cls_get_eoa_def cls_read_def split: if_splits prod.splits)

lemma read_adds_at_most_one:
  assumes "H5FD_read cfg file dxpl type addr sz buf = (r, buf', file')"
  shows "read_addrs (calls file') = read_addrs (calls file)
         \<or> read_addrs (calls file') = read_addrs (calls file) @ [addr + base_addr file]"
  using assms
  by (auto simp add: H5FD_read_def HDassert_def cls_get_eoa_def cls_read_def read_addrs_append
      split: if_splits prod.splits)

lemma read_success_adds_one:
  assumes "H5FD_read cfg file dxpl type addr sz buf = (Inr u, buf', file')"
    and "H5_HAVE_PARALLEL cfg \<or> sz \<noteq> 0"
  shows "read_addrs (calls file') = read_addrs (calls file) @ [addr + base_addr file]"
  using assms
  by (auto simp add: H5FD_read_def HDassert_def cls_get_eoa_def cls_read_def read_addrs_append
      split: if_splits prod.splits)

lemma get_eof_keeps:
  assumes "H5FD_get_eof file = (a, file1)"
  shows "base_addr file1 = base_addr file \<and> read_addrs (calls file1) = read_addrs (calls file)"
  using assms
  by (auto simp add: H5FD_get_eof_def cls_get_eof_def read_addrs_append
      split: option.splits if_splits)

lemma get_eoa_keeps:
  assumes "H5FD_get_eoa file type = (a, file1)"
  shows "base_addr file1 = base_addr file \<and> read_addrs (calls file1) = read_addrs (calls file)"
  using assms
  by (auto simp add: H5FD_get_eoa_def cls_get_eoa_def read_addrs_append split: if_splits)

lemma memcmp_nothing: "HDmemcmp s1 s2 0 = 0"
  by (simp add: HDmemcmp_def)

text \<open>
  The loop, one iteration at a time.
\<close>

lemma search_loop_exit:
  assumes "\<not> n < maxpow"
  shows "search_loop cfg dxpl maxpow n file addr buf = (Inr (n, addr), file)"
  using assms by (subst search_loop.simps) simp

lemma search_loop_set_eoa_fails:
  assumes "n < maxpow"
    and "H5FD_set_eoa cfg file H5FD_MEM_SUPER (candidate n + H5F_SIGNATURE_LEN cfg) = (Inl e, file1)"
  shows "search_loop cfg dxpl maxpow n file addr buf = (Inl (locate_failure e), file1)"
  using assms by (subst search_loop.simps) simp

lemma search_loop_read_fails:
  assumes "n < maxpow"
    and "H5FD_set_eoa cfg file H5FD_MEM_SUPER (candidate n + H5F_SIGNATURE_LEN cfg) = (Inr u, file1)"
    and "H5FD_read cfg file1 dxpl H5FD_MEM_SUPER (candidate n) (H5F_SIGNATURE_LEN cfg) buf =
           (Inl e, buf1, file2)"
  shows "search_loop cfg dxpl maxpow n file addr buf = (Inl (locate_failure e), file2)"
  using assms by (subst search_loop.simps) simp

lemma search_loop_match:
  assumes "n < maxpow"
    and "H5FD_set_eoa cfg file H5FD_MEM_SUPER (candidate n + H5F_SIGNATURE_LEN cfg) = (Inr u, file1)"
    and "H5FD_read cfg file1 dxpl H5FD_MEM_SUPER (candidate n) (H5F_SIGNATURE_LEN cfg) buf =
           (Inr v, buf1, file2)"
    and "HDmemcmp buf1 (H5F_SIGNATURE cfg) (H5F_SIGNATURE_LEN cfg) = 0"
  shows "search_loop cfg dxpl maxpow n file addr buf = (Inr (n, candidate n), file2)"
  using assms by (subst search_loop.simps) simp

lemma search_loop_next:
  assumes "n < maxpow"
    and "H5FD_set_eoa cfg file H5FD_MEM_SUPER (candidate n + H5F_SIGNATURE_LEN cfg) = (Inr u, file1)"
    and "H5FD_read cfg file1 dxpl H5FD_MEM_SUPER (candidate n) (H5F_SIGNATURE_LEN cfg) buf =
           (Inr v, buf1, file2)"
    and "HDmemcmp buf1 (H5F_SIGNATURE cfg) (H5F_SIGNATURE_LEN cfg) \<noteq> 0"
  shows "search_loop cfg dxpl maxpow n file addr buf =
           search_loop cfg dxpl maxpow (Suc n) file2 (candidate n) buf1"
  using assms by (subst search_loop.simps) simp

text \<open>
  Whatever the driver does, the loop reads the candidates of a range \<open>n, \<dots>, k - 1\<close> of
  indices, in this order. When it leaves by its condition it has read them all; when
  it leaves by \<^verbatim>\<open>break\<close>, \<open>addr\<close> is the candidate of the index.
\<close>

lemma search_loop_reads:
  "\<exists>k. n \<le> k \<and> k \<le> max n maxpow
     \<and> read_addrs (calls (snd (search_loop cfg dxpl maxpow n file addr buf))) =
         read_addrs (calls file) @ map (\<lambda>m. candidate m + base_addr file) [n..<k]"
proof (induction "maxpow - n" arbitrary: n "file" addr buf)
  case 0
  then have "\<not> n < maxpow" by simp
  then have "search_loop cfg dxpl maxpow n file addr buf = (Inr (n, addr), file)"
    by (rule search_loop_exit)
  then show ?case
    by (intro exI [of _ n]) simp
next
  case (Suc d)
  then have lt: "n < maxpow" by simp
  obtain r1 file1 where s:
    "H5FD_set_eoa cfg file H5FD_MEM_SUPER (candidate n + H5F_SIGNATURE_LEN cfg) = (r1, file1)"
    by (cases "H5FD_set_eoa cfg file H5FD_MEM_SUPER (candidate n + H5F_SIGNATURE_LEN cfg)")
  from set_eoa_keeps [OF s] have b1: "base_addr file1 = base_addr file"
    and c1: "read_addrs (calls file1) = read_addrs (calls file)"
    by simp_all
  show ?case
  proof (cases r1)
    case (Inl e)
    with s lt have "search_loop cfg dxpl maxpow n file addr buf = (Inl (locate_failure e), file1)"
      by (simp add: search_loop_set_eoa_fails)
    with c1 show ?thesis
      by (intro exI [of _ n]) simp
  next
    case (Inr u)
    obtain r2 buf1 file2 where rd:
      "H5FD_read cfg file1 dxpl H5FD_MEM_SUPER (candidate n) (H5F_SIGNATURE_LEN cfg) buf =
         (r2, buf1, file2)"
      by (cases "H5FD_read cfg file1 dxpl H5FD_MEM_SUPER (candidate n)
                   (H5F_SIGNATURE_LEN cfg) buf")
    from read_keeps_base [OF rd] b1 have b2: "base_addr file2 = base_addr file"
      by simp
    from read_adds_at_most_one [OF rd] b1 c1
    have c2: "read_addrs (calls file2) = read_addrs (calls file)
        \<or> read_addrs (calls file2) = read_addrs (calls file) @ [candidate n + base_addr file]"
      by simp
    have stop: "\<exists>k. n \<le> k \<and> k \<le> max n maxpow
        \<and> read_addrs (calls file2) =
            read_addrs (calls file) @ map (\<lambda>m. candidate m + base_addr file) [n..<k]"
    proof (rule disjE [OF c2])
      assume "read_addrs (calls file2) = read_addrs (calls file)"
      then show ?thesis
        by (intro exI [of _ n]) simp
    next
      assume "read_addrs (calls file2) = read_addrs (calls file) @ [candidate n + base_addr file]"
      with lt show ?thesis
        by (intro exI [of _ "Suc n"]) simp
    qed
    show ?thesis
    proof (cases r2)
      case (Inl e)
      with s rd lt \<open>r1 = Inr u\<close>
      have "search_loop cfg dxpl maxpow n file addr buf = (Inl (locate_failure e), file2)"
        by (simp add: search_loop_read_fails)
      with stop show ?thesis by simp
    next
      case (Inr v)
      show ?thesis
      proof (cases "HDmemcmp buf1 (H5F_SIGNATURE cfg) (H5F_SIGNATURE_LEN cfg) = 0")
        case True
        with s rd lt \<open>r1 = Inr u\<close> \<open>r2 = Inr v\<close>
        have "search_loop cfg dxpl maxpow n file addr buf = (Inr (n, candidate n), file2)"
          by (simp add: search_loop_match)
        with stop show ?thesis by simp
      next
        case False
        then have "H5F_SIGNATURE_LEN cfg \<noteq> 0"
          using memcmp_nothing by metis
        with rd \<open>r2 = Inr v\<close> b1 c1
        have c2': "read_addrs (calls file2) =
            read_addrs (calls file) @ [candidate n + base_addr file]"
          using read_success_adds_one [of cfg file1 dxpl H5FD_MEM_SUPER "candidate n"
              "H5F_SIGNATURE_LEN cfg" buf v buf1 file2]
          by simp
        from False s rd lt \<open>r1 = Inr u\<close> \<open>r2 = Inr v\<close>
        have step: "search_loop cfg dxpl maxpow n file addr buf =
            search_loop cfg dxpl maxpow (Suc n) file2 (candidate n) buf1"
          by (simp add: search_loop_next)
        from Suc.hyps(2) have "d = maxpow - Suc n" by simp
        from Suc.hyps(1) [OF this, of file2 "candidate n" buf1]
        obtain k where k: "Suc n \<le> k" "k \<le> max (Suc n) maxpow"
          and rk: "read_addrs (calls (snd (search_loop cfg dxpl maxpow (Suc n) file2
                      (candidate n) buf1))) =
                   read_addrs (calls file2) @ map (\<lambda>m. candidate m + base_addr file2) [Suc n..<k]"
          by blast
        from k have "[n..<k] = n # [Suc n..<k]"
          by (simp add: upt_conv_Cons)
        with rk c2' b2 step k lt show ?thesis
          by (intro exI [of _ k]) simp
      qed
    qed
  qed
qed

lemma search_loop_exhausted:
  assumes "search_loop cfg dxpl maxpow n file addr buf = (Inr (n', a), file')"
    and "n \<le> maxpow" and "maxpow \<le> n'"
  shows "n' = maxpow
         \<and> read_addrs (calls file') =
             read_addrs (calls file) @ map (\<lambda>m. candidate m + base_addr file) [n..<maxpow]"
  using assms
proof (induction "maxpow - n" arbitrary: n "file" addr buf)
  case 0
  then have "\<not> n < maxpow" by simp
  then have "search_loop cfg dxpl maxpow n file addr buf = (Inr (n, addr), file)"
    by (rule search_loop_exit)
  with 0 show ?case by simp
next
  case (Suc d)
  then have lt: "n < maxpow" by simp
  obtain r1 file1 where s:
    "H5FD_set_eoa cfg file H5FD_MEM_SUPER (candidate n + H5F_SIGNATURE_LEN cfg) = (r1, file1)"
    by (cases "H5FD_set_eoa cfg file H5FD_MEM_SUPER (candidate n + H5F_SIGNATURE_LEN cfg)")
  from set_eoa_keeps [OF s] have b1: "base_addr file1 = base_addr file"
    and c1: "read_addrs (calls file1) = read_addrs (calls file)"
    by simp_all
  obtain r2 buf1 file2 where rd:
    "H5FD_read cfg file1 dxpl H5FD_MEM_SUPER (candidate n) (H5F_SIGNATURE_LEN cfg) buf =
       (r2, buf1, file2)"
    by (cases "H5FD_read cfg file1 dxpl H5FD_MEM_SUPER (candidate n)
                 (H5F_SIGNATURE_LEN cfg) buf")
  from read_keeps_base [OF rd] b1 have b2: "base_addr file2 = base_addr file"
    by simp
  from Suc.prems(1) lt s obtain u where r1: "r1 = Inr u"
    by (cases r1) (simp_all add: search_loop_set_eoa_fails)
  from Suc.prems(1) lt s rd r1 obtain v where r2: "r2 = Inr v"
    by (cases r2) (simp_all add: search_loop_read_fails)
  have ne: "HDmemcmp buf1 (H5F_SIGNATURE cfg) (H5F_SIGNATURE_LEN cfg) \<noteq> 0"
  proof
    assume "HDmemcmp buf1 (H5F_SIGNATURE cfg) (H5F_SIGNATURE_LEN cfg) = 0"
    with s rd lt r1 r2
    have "search_loop cfg dxpl maxpow n file addr buf = (Inr (n, candidate n), file2)"
      by (simp add: search_loop_match)
    with Suc.prems(1) have "n' = n" by simp
    with lt Suc.prems(3) show False by simp
  qed
  then have "H5F_SIGNATURE_LEN cfg \<noteq> 0"
    using memcmp_nothing by metis
  with rd r2 b1 c1
  have c2: "read_addrs (calls file2) = read_addrs (calls file) @ [candidate n + base_addr file]"
    using read_success_adds_one [of cfg file1 dxpl H5FD_MEM_SUPER "candidate n"
        "H5F_SIGNATURE_LEN cfg" buf v buf1 file2]
    by simp
  from ne s rd lt r1 r2
  have step: "search_loop cfg dxpl maxpow n file addr buf =
      search_loop cfg dxpl maxpow (Suc n) file2 (candidate n) buf1"
    by (simp add: search_loop_next)
  from Suc.hyps(2) have d: "d = maxpow - Suc n" by simp
  from lt have le: "Suc n \<le> maxpow" by simp
  from Suc.prems(1) step
  have "search_loop cfg dxpl maxpow (Suc n) file2 (candidate n) buf1 = (Inr (n', a), file')"
    by simp
  from Suc.hyps(1) [OF d this le Suc.prems(3)]
  have n': "n' = maxpow"
    and rk: "read_addrs (calls file') =
        read_addrs (calls file2) @ map (\<lambda>m. candidate m + base_addr file2) [Suc n..<maxpow]"
    by simp_all
  from lt have "[n..<maxpow] = n # [Suc n..<maxpow]"
    by (simp add: upt_conv_Cons)
  with n' rk c2 b2 show ?case by simp
qed

lemma search_loop_found:
  assumes "search_loop cfg dxpl maxpow n file addr buf = (Inr (n', a), file')"
    and "n' < maxpow"
  shows "a = candidate n'"
  using assms
proof (induction "maxpow - n" arbitrary: n "file" addr buf)
  case 0
  then have "\<not> n < maxpow" by simp
  then have "search_loop cfg dxpl maxpow n file addr buf = (Inr (n, addr), file)"
    by (rule search_loop_exit)
  with 0 show ?case by simp
next
  case (Suc d)
  then have lt: "n < maxpow" by simp
  obtain r1 file1 where s:
    "H5FD_set_eoa cfg file H5FD_MEM_SUPER (candidate n + H5F_SIGNATURE_LEN cfg) = (r1, file1)"
    by (cases "H5FD_set_eoa cfg file H5FD_MEM_SUPER (candidate n + H5F_SIGNATURE_LEN cfg)")
  obtain r2 buf1 file2 where rd:
    "H5FD_read cfg file1 dxpl H5FD_MEM_SUPER (candidate n) (H5F_SIGNATURE_LEN cfg) buf =
       (r2, buf1, file2)"
    by (cases "H5FD_read cfg file1 dxpl H5FD_MEM_SUPER (candidate n)
                 (H5F_SIGNATURE_LEN cfg) buf")
  from Suc.prems(1) lt s obtain u where r1: "r1 = Inr u"
    by (cases r1) (simp_all add: search_loop_set_eoa_fails)
  from Suc.prems(1) lt s rd r1 obtain v where r2: "r2 = Inr v"
    by (cases r2) (simp_all add: search_loop_read_fails)
  show ?case
  proof (cases "HDmemcmp buf1 (H5F_SIGNATURE cfg) (H5F_SIGNATURE_LEN cfg) = 0")
    case True
    with s rd lt r1 r2
    have "search_loop cfg dxpl maxpow n file addr buf = (Inr (n, candidate n), file2)"
      by (simp add: search_loop_match)
    with Suc.prems(1) show ?thesis by auto
  next
    case False
    with s rd lt r1 r2
    have "search_loop cfg dxpl maxpow n file addr buf =
        search_loop cfg dxpl maxpow (Suc n) file2 (candidate n) buf1"
      by (simp add: search_loop_next)
    with Suc.prems(1)
    have *: "search_loop cfg dxpl maxpow (Suc n) file2 (candidate n) buf1 = (Inr (n', a), file')"
      by simp
    from Suc.hyps(2) have "d = maxpow - Suc n" by simp
    from Suc.hyps(1) [OF this * Suc.prems(2)] show ?thesis .
  qed
qed

subsection \<open>The search as a whole\<close>

text \<open>
  The outcomes of \<^verbatim>\<open>H5FD_locate_signature\<close>, by those of its steps.
\<close>

lemma locate_eof_undefined:
  assumes "H5FD_get_eof file = (HADDR_UNDEF, file1)"
  shows "H5FD_locate_signature cfg file dxpl buf = (Inl (H5E_error H5E_IO H5E_CANTINIT), file1)"
  unfolding H5FD_locate_signature_def assms by simp

lemma locate_eoa_undefined:
  assumes "H5FD_get_eof file = (eofv, file1)" and "HADDR_UNDEF \<noteq> eofv"
    and "H5FD_get_eoa file1 H5FD_MEM_SUPER = (HADDR_UNDEF, file2)"
  shows "H5FD_locate_signature cfg file dxpl buf = (Inl (H5E_error H5E_IO H5E_CANTINIT), file2)"
  unfolding H5FD_locate_signature_def assms(1) using assms(2,3) by simp

lemma locate_search_fails:
  assumes "H5FD_get_eof file = (eofv, file1)" and "HADDR_UNDEF \<noteq> eofv"
    and "H5FD_get_eoa file1 H5FD_MEM_SUPER = (eoav, file2)" and "HADDR_UNDEF \<noteq> eoav"
    and "search_loop cfg dxpl (signature_maxpow eofv) 8 file2 0 buf = (Inl e, file3)"
  shows "H5FD_locate_signature cfg file dxpl buf = (Inl e, file3)"
  unfolding H5FD_locate_signature_def assms(1) using assms(2-) by simp

lemma locate_search_breaks:
  assumes "H5FD_get_eof file = (eofv, file1)" and "HADDR_UNDEF \<noteq> eofv"
    and "H5FD_get_eoa file1 H5FD_MEM_SUPER = (eoav, file2)" and "HADDR_UNDEF \<noteq> eoav"
    and "search_loop cfg dxpl (signature_maxpow eofv) 8 file2 0 buf = (Inr (n, a), file3)"
    and "n < signature_maxpow eofv"
  shows "H5FD_locate_signature cfg file dxpl buf = (Inr a, file3)"
  unfolding H5FD_locate_signature_def assms(1) using assms(2-) by simp

lemma locate_search_exhausted:
  assumes "H5FD_get_eof file = (eofv, file1)" and "HADDR_UNDEF \<noteq> eofv"
    and "H5FD_get_eoa file1 H5FD_MEM_SUPER = (eoav, file2)" and "HADDR_UNDEF \<noteq> eoav"
    and "search_loop cfg dxpl (signature_maxpow eofv) 8 file2 0 buf = (Inr (n, a), file3)"
    and "signature_maxpow eofv \<le> n"
    and "H5FD_set_eoa cfg file3 H5FD_MEM_SUPER eoav = (r, file4)"
  shows "H5FD_locate_signature cfg file dxpl buf =
           (case r of Inl e \<Rightarrow> Inl (locate_failure e) | Inr u \<Rightarrow> Inr HADDR_UNDEF, file4)"
  unfolding H5FD_locate_signature_def assms(1) using assms(2-) by (cases r) simp_all

text \<open>
  The reads of a search, for every driver.
\<close>

lemma locate_reads:
  "\<exists>k. 8 \<le> k \<and> k \<le> signature_maxpow (fst (H5FD_get_eof file))
     \<and> read_addrs (calls (snd (H5FD_locate_signature cfg file dxpl buf))) =
         read_addrs (calls file) @ map (\<lambda>n. candidate n + base_addr file) [8..<k]"
proof -
  obtain eofv file1 where e: "H5FD_get_eof file = (eofv, file1)"
    by (cases "H5FD_get_eof file")
  obtain eoav file2 where a: "H5FD_get_eoa file1 H5FD_MEM_SUPER = (eoav, file2)"
    by (cases "H5FD_get_eoa file1 H5FD_MEM_SUPER")
  from get_eof_keeps [OF e] have k1: "base_addr file1 = base_addr file"
    "read_addrs (calls file1) = read_addrs (calls file)"
    by simp_all
  from get_eoa_keeps [OF a] k1 have k2: "base_addr file2 = base_addr file"
    "read_addrs (calls file2) = read_addrs (calls file)"
    by simp_all
  have m9: "8 \<le> signature_maxpow eofv"
    by (simp add: signature_maxpow_def)
  have goal: "\<exists>k. 8 \<le> k \<and> k \<le> signature_maxpow eofv
     \<and> read_addrs (calls (snd (H5FD_locate_signature cfg file dxpl buf))) =
         read_addrs (calls file) @ map (\<lambda>n. candidate n + base_addr file) [8..<k]"
  proof (cases "HADDR_UNDEF = eofv")
    case True
    with e have "H5FD_locate_signature cfg file dxpl buf =
        (Inl (H5E_error H5E_IO H5E_CANTINIT), file1)"
      by (simp add: locate_eof_undefined)
    with k1 m9 show ?thesis
      by (intro exI [of _ 8]) simp
  next
    case eof_ok: False
    show ?thesis
    proof (cases "HADDR_UNDEF = eoav")
      case True
      with e a eof_ok have "H5FD_locate_signature cfg file dxpl buf =
          (Inl (H5E_error H5E_IO H5E_CANTINIT), file2)"
        by (simp add: locate_eoa_undefined)
      with k2 m9 show ?thesis
        by (intro exI [of _ 8]) simp
    next
      case eoa_ok: False
      obtain r file3 where l:
        "search_loop cfg dxpl (signature_maxpow eofv) 8 file2 0 buf = (r, file3)"
        by (cases "search_loop cfg dxpl (signature_maxpow eofv) 8 file2 0 buf")
      from m9 have mx: "max 8 (signature_maxpow eofv) = signature_maxpow eofv"
        by simp
      from search_loop_reads [of 8 "signature_maxpow eofv" cfg dxpl file2 0 buf]
      obtain k where k: "8 \<le> k" "k \<le> signature_maxpow eofv"
        and rk: "read_addrs (calls file3) =
            read_addrs (calls file) @ map (\<lambda>n. candidate n + base_addr file) [8..<k]"
        unfolding l mx k2 snd_conv by blast
      have "read_addrs (calls (snd (H5FD_locate_signature cfg file dxpl buf))) =
          read_addrs (calls file3)"
      proof (cases r)
        case (Inl x)
        with l have "H5FD_locate_signature cfg file dxpl buf = (Inl x, file3)"
          using locate_search_fails [OF e eof_ok a eoa_ok] by simp
        then show ?thesis by simp
      next
        case (Inr p)
        obtain n' a' where p: "p = (n', a')" by (cases p)
        show ?thesis
        proof (cases "n' < signature_maxpow eofv")
          case True
          with l Inr p have "H5FD_locate_signature cfg file dxpl buf = (Inr a', file3)"
            using locate_search_breaks [OF e eof_ok a eoa_ok] by simp
          then show ?thesis by simp
        next
          case False
          then have ge: "signature_maxpow eofv \<le> n'" by simp
          obtain r4 file4 where s4: "H5FD_set_eoa cfg file3 H5FD_MEM_SUPER eoav = (r4, file4)"
            by (cases "H5FD_set_eoa cfg file3 H5FD_MEM_SUPER eoav")
          from l Inr p have l': "search_loop cfg dxpl (signature_maxpow eofv) 8 file2 0 buf =
              (Inr (n', a'), file3)"
            by simp
          from set_eoa_keeps [OF s4] have "read_addrs (calls file4) = read_addrs (calls file3)"
            by simp
          then show ?thesis
            unfolding locate_search_exhausted [OF e eof_ok a eoa_ok l' ge s4] by simp
        qed
      qed
      with k rk show ?thesis
        by (intro exI [of _ k]) simp
    qed
  qed
  then show ?thesis
    unfolding e fst_conv .
qed

lemma locate_not_found_reads:
  assumes "fst (H5FD_locate_signature cfg file dxpl buf) = Inr HADDR_UNDEF"
  shows "read_addrs (calls (snd (H5FD_locate_signature cfg file dxpl buf))) =
           read_addrs (calls file)
             @ map (\<lambda>n. candidate n + base_addr file)
                 [8..<signature_maxpow (fst (H5FD_get_eof file))]"
proof -
  obtain eofv file1 where e: "H5FD_get_eof file = (eofv, file1)"
    by (cases "H5FD_get_eof file")
  obtain eoav file2 where a: "H5FD_get_eoa file1 H5FD_MEM_SUPER = (eoav, file2)"
    by (cases "H5FD_get_eoa file1 H5FD_MEM_SUPER")
  from get_eof_keeps [OF e] have k1: "base_addr file1 = base_addr file"
    "read_addrs (calls file1) = read_addrs (calls file)"
    by simp_all
  from get_eoa_keeps [OF a] k1 have k2: "base_addr file2 = base_addr file"
    "read_addrs (calls file2) = read_addrs (calls file)"
    by simp_all
  have m9: "8 \<le> signature_maxpow eofv"
    by (simp add: signature_maxpow_def)
  have eof_ok: "HADDR_UNDEF \<noteq> eofv"
  proof
    assume "HADDR_UNDEF = eofv"
    with e have "H5FD_locate_signature cfg file dxpl buf =
        (Inl (H5E_error H5E_IO H5E_CANTINIT), file1)"
      by (simp add: locate_eof_undefined)
    with assms show False by simp
  qed
  have eoa_ok: "HADDR_UNDEF \<noteq> eoav"
  proof
    assume "HADDR_UNDEF = eoav"
    with e a eof_ok have "H5FD_locate_signature cfg file dxpl buf =
        (Inl (H5E_error H5E_IO H5E_CANTINIT), file2)"
      by (simp add: locate_eoa_undefined)
    with assms show False by simp
  qed
  obtain r file3 where l:
    "search_loop cfg dxpl (signature_maxpow eofv) 8 file2 0 buf = (r, file3)"
    by (cases "search_loop cfg dxpl (signature_maxpow eofv) 8 file2 0 buf")
  obtain n' a' where r: "r = Inr (n', a')"
  proof (cases r)
    case (Inl x)
    with l have "H5FD_locate_signature cfg file dxpl buf = (Inl x, file3)"
      using locate_search_fails [OF e eof_ok a eoa_ok] by simp
    with assms show ?thesis by simp
  next
    case (Inr p)
    with that show ?thesis by (cases p) simp
  qed
  from l r have l': "search_loop cfg dxpl (signature_maxpow eofv) 8 file2 0 buf =
      (Inr (n', a'), file3)"
    by simp
  have ge: "signature_maxpow eofv \<le> n'"
  proof (rule ccontr)
    assume "\<not> signature_maxpow eofv \<le> n'"
    then have lt: "n' < signature_maxpow eofv" by simp
    from search_loop_found [OF l' lt] have "a' = candidate n'" .
    moreover from assms have "a' = HADDR_UNDEF"
      unfolding locate_search_breaks [OF e eof_ok a eoa_ok l' lt] by simp
    ultimately show False
      using candidate_defined [of n'] by simp
  qed
  from search_loop_exhausted [OF l' m9 ge] k2
  have r3: "read_addrs (calls file3) =
      read_addrs (calls file)
        @ map (\<lambda>n. candidate n + base_addr file) [8..<signature_maxpow eofv]"
    by simp
  obtain r4 file4 where s4: "H5FD_set_eoa cfg file3 H5FD_MEM_SUPER eoav = (r4, file4)"
    by (cases "H5FD_set_eoa cfg file3 H5FD_MEM_SUPER eoav")
  from set_eoa_keeps [OF s4] have "read_addrs (calls file4) = read_addrs (calls file3)"
    by simp
  with r3 show ?thesis
    unfolding locate_search_exhausted [OF e eof_ok a eoa_ok l' ge s4] e by simp
qed

text \<open>
  Claim C3. With \<open>EOF\<close> the end of file that \<^verbatim>\<open>H5FD_get_eof\<close> returns in the first step:
  \<^item> \<open>maxpow\<close> is the least \<open>N\<close> with \<open>EOF < 2 ^ N\<close>, raised to 9 if smaller;
  \<^item> the candidates of the indices \<open>8, \<dots>, maxpow - 1\<close> are the numbers
    \<open>0, 2 ^ 9, 2 ^ 10, \<dots>, 2 ^ (maxpow - 1)\<close>: 0 at index 8 and \<open>2 ^ n\<close> otherwise;
  \<^item> when there is a candidate beyond 0, the largest one is at most \<open>EOF\<close>;
  \<^item> for every driver, the offsets that a search reads are the candidates of the indices
    \<open>8, \<dots>, k - 1\<close> for some \<open>k \<le> maxpow\<close>, in ascending order (the search stops at a
    match or at a failure);
  \<^item> a search that ends without a match has read the candidates of all the indices
    \<open>8, \<dots>, maxpow - 1\<close>.
  The trace holds absolute addresses, so each offset appears with \<open>base_addr\<close> added.
\<close>

theorem candidate_sequence:
  "signature_maxpow (fst (H5FD_get_eof file)) =
     max (LEAST N. unat (fst (H5FD_get_eof file)) < 2 ^ N) 9
   \<and> map (\<lambda>n. unat (candidate n)) [8..<signature_maxpow (fst (H5FD_get_eof file))] =
       0 # map (\<lambda>n. 2 ^ n) [9..<signature_maxpow (fst (H5FD_get_eof file))]
   \<and> (9 < signature_maxpow (fst (H5FD_get_eof file)) \<longrightarrow>
         2 ^ (signature_maxpow (fst (H5FD_get_eof file)) - 1) \<le> unat (fst (H5FD_get_eof file)))
   \<and> (\<exists>k. 8 \<le> k \<and> k \<le> signature_maxpow (fst (H5FD_get_eof file))
         \<and> read_addrs (calls (snd (H5FD_locate_signature cfg file dxpl buf))) =
             read_addrs (calls file) @ map (\<lambda>n. candidate n + base_addr file) [8..<k])
   \<and> (fst (H5FD_locate_signature cfg file dxpl buf) = Inr HADDR_UNDEF \<longrightarrow>
         read_addrs (calls (snd (H5FD_locate_signature cfg file dxpl buf))) =
           read_addrs (calls file)
             @ map (\<lambda>n. candidate n + base_addr file)
                 [8..<signature_maxpow (fst (H5FD_get_eof file))])"
  using signature_maxpow_least [of "fst (H5FD_get_eof file)"]
    candidate_numbers [of "fst (H5FD_get_eof file)"]
    signature_maxpow_brackets [of "fst (H5FD_get_eof file)"]
    locate_reads [of "file" cfg dxpl buf]
    locate_not_found_reads [of cfg "file" dxpl buf]
  by blast

theorem candidate_sequence_witness:
  "9 < signature_maxpow (fst (H5FD_get_eof (store_file 0 4096 (blank_store 2048 0))))
   \<and> (2 :: nat) ^ (signature_maxpow (fst (H5FD_get_eof (store_file 0 4096 (blank_store 2048 0)))) - 1)
        \<le> unat (fst (H5FD_get_eof (store_file 0 4096 (blank_store 2048 0))))
   \<and> fst (H5FD_locate_signature serial_build (store_file 0 4096 (blank_store 2048 0)) xfer_plist
          (replicate 8 0)) = Inr HADDR_UNDEF
   \<and> read_addrs (calls (snd (H5FD_locate_signature serial_build
          (store_file 0 4096 (blank_store 2048 0)) xfer_plist (replicate 8 0)))) =
       [0, 512, 1024, 2048]"
proof -
  have m: "9 < signature_maxpow (fst (H5FD_get_eof (store_file 0 4096 (blank_store 2048 0))))"
    by code_simp
  have h: "fst (H5FD_locate_signature serial_build (store_file 0 4096 (blank_store 2048 0))
      xfer_plist (replicate 8 0)) = Inr HADDR_UNDEF"
    by code_simp
  have c: "read_addrs (calls (store_file 0 4096 (blank_store 2048 0)))
      @ map (\<lambda>n. candidate n + base_addr (store_file 0 4096 (blank_store 2048 0)))
          [8..<signature_maxpow (fst (H5FD_get_eof (store_file 0 4096 (blank_store 2048 0))))] =
      [0, 512, 1024, 2048]"
    by code_simp
  from candidate_sequence [of "store_file 0 4096 (blank_store 2048 0)" serial_build xfer_plist
      "replicate 8 0"] h m
  have "read_addrs (calls (snd (H5FD_locate_signature serial_build
          (store_file 0 4096 (blank_store 2048 0)) xfer_plist (replicate 8 0)))) =
      read_addrs (calls (store_file 0 4096 (blank_store 2048 0)))
      @ map (\<lambda>n. candidate n + base_addr (store_file 0 4096 (blank_store 2048 0)))
          [8..<signature_maxpow (fst (H5FD_get_eof (store_file 0 4096 (blank_store 2048 0))))]"
    and "(2 :: nat) ^ (signature_maxpow
            (fst (H5FD_get_eof (store_file 0 4096 (blank_store 2048 0)))) - 1)
        \<le> unat (fst (H5FD_get_eof (store_file 0 4096 (blank_store 2048 0))))"
    by blast+
  with h c m show ?thesis by simp
qed

text \<open>
  Claim C7, as stated, fails: for an end of file of 0 the candidates are not
  \<open>0, 512, \<dots>\<close>. \<open>maxpow\<close> is 9, the loop runs for the index 8 alone, and the search of
  an empty store reads offset 0 and nothing else before it ends without a match.
\<close>

theorem empty_file_candidates_counterexample:
  "fst (H5FD_get_eof (store_file 0 4096 (blank_store 0 0))) = 0
   \<and> fst (H5FD_locate_signature serial_build (store_file 0 4096 (blank_store 0 0)) xfer_plist
          (replicate 8 0)) = Inr HADDR_UNDEF
   \<and> read_addrs (calls (snd (H5FD_locate_signature serial_build
          (store_file 0 4096 (blank_store 0 0)) xfer_plist (replicate 8 0)))) = [0]"
  by code_simp

text \<open>
  Claim C7, amended. For an end of file of 0, \<open>maxpow\<close> is 9 and the only offset a
  search reads is 0 (with \<open>base_addr\<close> added in the trace): it reads nothing when it fails
  before the read, and exactly offset 0 when it ends without a match. So no offset
  below 512 other than 0 is read, and 512 is not read either.
\<close>

theorem empty_file_candidates:
  assumes "fst (H5FD_get_eof file) = 0"
  shows "signature_maxpow (fst (H5FD_get_eof file)) = 9
         \<and> (read_addrs (calls (snd (H5FD_locate_signature cfg file dxpl buf))) =
              read_addrs (calls file)
            \<or> read_addrs (calls (snd (H5FD_locate_signature cfg file dxpl buf))) =
              read_addrs (calls file) @ [base_addr file])
         \<and> (fst (H5FD_locate_signature cfg file dxpl buf) = Inr HADDR_UNDEF \<longrightarrow>
              read_addrs (calls (snd (H5FD_locate_signature cfg file dxpl buf))) =
                read_addrs (calls file) @ [base_addr file])"
proof -
  have m: "signature_maxpow (fst (H5FD_get_eof file)) = 9"
    using assms by (simp add: signature_maxpow_zero)
  have u: "[8..<9] = [8 :: nat]"
    by (simp add: upt_conv_Cons)
  from locate_reads [of "file" cfg dxpl buf] m
  obtain k where k: "8 \<le> k" "k \<le> 9"
    and rk: "read_addrs (calls (snd (H5FD_locate_signature cfg file dxpl buf))) =
        read_addrs (calls file) @ map (\<lambda>n. candidate n + base_addr file) [8..<k]"
    by auto
  from k have "k = 8 \<or> k = 9" by auto
  with rk u have some: "read_addrs (calls (snd (H5FD_locate_signature cfg file dxpl buf))) =
        read_addrs (calls file)
      \<or> read_addrs (calls (snd (H5FD_locate_signature cfg file dxpl buf))) =
        read_addrs (calls file) @ [base_addr file]"
    by (auto simp add: candidate_8)
  have all: "fst (H5FD_locate_signature cfg file dxpl buf) = Inr HADDR_UNDEF \<longrightarrow>
      read_addrs (calls (snd (H5FD_locate_signature cfg file dxpl buf))) =
        read_addrs (calls file) @ [base_addr file]"
    using locate_not_found_reads [of cfg "file" dxpl buf] m u
    by (simp add: candidate_8)
  from m some all show ?thesis by blast
qed

theorem empty_file_candidates_witness:
  "fst (H5FD_get_eof (store_file 512 4096 (blank_store 512 512))) = 0
   \<and> signature_maxpow (fst (H5FD_get_eof (store_file 512 4096 (blank_store 512 512)))) = 9
   \<and> fst (H5FD_locate_signature serial_build (store_file 512 4096 (blank_store 512 512))
          xfer_plist (replicate 8 0)) = Inr HADDR_UNDEF
   \<and> read_addrs (calls (snd (H5FD_locate_signature serial_build
          (store_file 512 4096 (blank_store 512 512)) xfer_plist (replicate 8 0)))) = [512]"
proof -
  have e: "fst (H5FD_get_eof (store_file 512 4096 (blank_store 512 512))) = 0"
    by code_simp
  have h: "fst (H5FD_locate_signature serial_build (store_file 512 4096 (blank_store 512 512))
      xfer_plist (replicate 8 0)) = Inr HADDR_UNDEF"
    by code_simp
  have c: "read_addrs (calls (store_file 512 4096 (blank_store 512 512)))
      @ [base_addr (store_file 512 4096 (blank_store 512 512))] = [512]"
    by code_simp
  from empty_file_candidates [OF e, of serial_build xfer_plist "replicate 8 0"] h c e
  show ?thesis by simp
qed

section \<open>The signature search over a byte store\<close>

subsection \<open>The dispatch routines over a byte store\<close>

lemma store_get_eof:
  assumes "cls file = store_cls"
  shows "H5FD_get_eof file =
           (if HADDR_UNDEF = st_eof (driver file) then HADDR_UNDEF
            else st_eof (driver file) - base_addr file,
            file\<lparr>calls := calls file @ [Call_get_eof]\<rparr>)"
  using assms by (simp add: H5FD_get_eof_def cls_get_eof_def store_cls_def)

lemma store_get_eoa:
  assumes "cls file = store_cls"
  shows "H5FD_get_eoa file type =
           (if HADDR_UNDEF = st_eoa (driver file) type then HADDR_UNDEF
            else st_eoa (driver file) type - base_addr file,
            file\<lparr>calls := calls file @ [Call_get_eoa type]\<rparr>)"
  using assms by (simp add: H5FD_get_eoa_def cls_get_eoa_def store_cls_def)

lemma store_set_eoa_accepted:
  assumes "cls file = store_cls"
    and "HDassert cfg (H5F_addr_defined addr \<and> addr \<le> maxaddr file)"
    and "st_accepts (driver file) type (addr + base_addr file)"
  shows "H5FD_set_eoa cfg file type addr =
           (Inr (),
            file\<lparr>driver := (driver file)\<lparr>st_eoa := (st_eoa (driver file))
                                                  (type := addr + base_addr file)\<rparr>,
                 calls := calls file @ [Call_set_eoa type (addr + base_addr file)]\<rparr>)"
  using assms by (simp add: H5FD_set_eoa_def HDassert_def cls_set_eoa_def store_cls_def store_set_eoa_def)

lemma store_set_eoa_rejected:
  assumes "cls file = store_cls"
    and "HDassert cfg (H5F_addr_defined addr \<and> addr \<le> maxaddr file)"
    and "\<not> st_accepts (driver file) type (addr + base_addr file)"
  shows "H5FD_set_eoa cfg file type addr =
           (Inl (H5E_error H5E_VFL H5E_CANTINIT),
            file\<lparr>calls := calls file @ [Call_set_eoa type (addr + base_addr file)]\<rparr>)"
  using assms by (simp add: H5FD_set_eoa_def HDassert_def cls_set_eoa_def store_cls_def store_set_eoa_def)

lemma store_read_accepted:
  assumes "cls file = store_cls" and "isa_dataset_xfer dxpl"
    and "H5_HAVE_PARALLEL cfg \<or> sz \<noteq> 0"
    and "st_eoa (driver file) type \<noteq> HADDR_UNDEF"
    and "addr + base_addr file + sz \<le> st_eoa (driver file) type"
    and "st_readable (driver file) (addr + base_addr file) sz"
  shows "H5FD_read cfg file dxpl type addr sz buf =
           (Inr (), fetch (driver file) (addr + base_addr file) (unat sz) @ drop (unat sz) buf,
            file\<lparr>calls := calls file @ [Call_get_eoa type,
                   Call_read type (plist_id dxpl) (addr + base_addr file) sz]\<rparr>)"
  using assms
  by (auto simp add: H5FD_read_def HDassert_def cls_get_eoa_def cls_read_def store_cls_def store_read_def)

lemma store_read_rejected:
  assumes "cls file = store_cls" and "isa_dataset_xfer dxpl"
    and "H5_HAVE_PARALLEL cfg \<or> sz \<noteq> 0"
    and "st_eoa (driver file) type \<noteq> HADDR_UNDEF"
    and "addr + base_addr file + sz \<le> st_eoa (driver file) type"
    and "\<not> st_readable (driver file) (addr + base_addr file) sz"
  shows "H5FD_read cfg file dxpl type addr sz buf =
           (Inl (H5E_error H5E_VFL H5E_READERROR), buf,
            file\<lparr>calls := calls file @ [Call_get_eoa type,
                   Call_read type (plist_id dxpl) (addr + base_addr file) sz]\<rparr>)"
  using assms
  by (auto simp add: H5FD_read_def HDassert_def cls_get_eoa_def cls_read_def store_cls_def store_read_def)

lemma store_read_eoa_undefined:
  assumes "cls file = store_cls" and "isa_dataset_xfer dxpl"
    and "H5_HAVE_PARALLEL cfg \<or> sz \<noteq> 0"
    and "st_eoa (driver file) type = HADDR_UNDEF"
  shows "H5FD_read cfg file dxpl type addr sz buf =
           (Inl (H5E_error H5E_VFL H5E_CANTINIT), buf,
            file\<lparr>calls := calls file @ [Call_get_eoa type]\<rparr>)"
  using assms
  by (auto simp add: H5FD_read_def HDassert_def cls_get_eoa_def store_cls_def)

text \<open>
  The two calls of a probe. After the first, the end of allocated address is the end of
  the candidate, so the bounds check of the read passes with equality.
\<close>

lemma probe_set_eoa:
  assumes "cls file = store_cls" and "eoa_asserted cfg file n" and "eoa_accepted cfg file n"
  shows "H5FD_set_eoa cfg file H5FD_MEM_SUPER (candidate n + H5F_SIGNATURE_LEN cfg) =
           (Inr (),
            file\<lparr>driver := (driver file)\<lparr>st_eoa := (st_eoa (driver file))
                     (H5FD_MEM_SUPER := candidate n + H5F_SIGNATURE_LEN cfg + base_addr file)\<rparr>,
                 calls := calls file @ [Call_set_eoa H5FD_MEM_SUPER
                     (candidate n + H5F_SIGNATURE_LEN cfg + base_addr file)]\<rparr>)"
  using assms
  by (intro store_set_eoa_accepted) (simp_all add: eoa_asserted_def eoa_accepted_def)

lemma probe_read:
  assumes "cls file = store_cls" and "isa_dataset_xfer dxpl" and "H5F_SIGNATURE_LEN cfg \<noteq> 0"
    and "read_accepted cfg file n"
  shows "H5FD_read cfg
           (file\<lparr>driver := (driver file)\<lparr>st_eoa := (st_eoa (driver file))
                     (H5FD_MEM_SUPER := candidate n + H5F_SIGNATURE_LEN cfg + base_addr file)\<rparr>,
                 calls := calls file @ [Call_set_eoa H5FD_MEM_SUPER
                     (candidate n + H5F_SIGNATURE_LEN cfg + base_addr file)]\<rparr>)
           dxpl H5FD_MEM_SUPER (candidate n) (H5F_SIGNATURE_LEN cfg) buf =
         (Inr (),
          fetch (driver file) (candidate n + base_addr file) (unat (H5F_SIGNATURE_LEN cfg))
            @ drop (unat (H5F_SIGNATURE_LEN cfg)) buf,
          after_probe cfg dxpl n file)"
proof -
  let ?g = "file\<lparr>driver := (driver file)\<lparr>st_eoa := (st_eoa (driver file))
                     (H5FD_MEM_SUPER := candidate n + H5F_SIGNATURE_LEN cfg + base_addr file)\<rparr>,
                 calls := calls file @ [Call_set_eoa H5FD_MEM_SUPER
                     (candidate n + H5F_SIGNATURE_LEN cfg + base_addr file)]\<rparr>"
  have "H5FD_read cfg ?g dxpl H5FD_MEM_SUPER (candidate n) (H5F_SIGNATURE_LEN cfg) buf =
      (Inr (),
       fetch (driver ?g) (candidate n + base_addr ?g) (unat (H5F_SIGNATURE_LEN cfg))
         @ drop (unat (H5F_SIGNATURE_LEN cfg)) buf,
       ?g\<lparr>calls := calls ?g @ [Call_get_eoa H5FD_MEM_SUPER,
              Call_read H5FD_MEM_SUPER (plist_id dxpl) (candidate n + base_addr ?g)
                (H5F_SIGNATURE_LEN cfg)]\<rparr>)"
    using assms
    by (intro store_read_accepted) (simp_all add: read_accepted_def add.commute add.left_commute)
  then show ?thesis
    by (simp add: after_probe_def fetch_def)
qed

subsection \<open>One iteration of the loop\<close>

lemma sig_at_length:
  assumes "\<not> sig_at cfg file n"
  shows "H5F_SIGNATURE_LEN cfg \<noteq> 0"
  using assms by (auto simp add: sig_at_def fetch_def)

lemma memcmp_fetched:
  "(HDmemcmp (fetch (driver file) (candidate n + base_addr file) (unat (H5F_SIGNATURE_LEN cfg))
               @ drop (unat (H5F_SIGNATURE_LEN cfg)) buf)
      (H5F_SIGNATURE cfg) (H5F_SIGNATURE_LEN cfg) = 0) = sig_at cfg file n"
  by (simp add: HDmemcmp_def sig_at_def fetch_def)

lemma probe_next:
  assumes "cls file = store_cls" and "isa_dataset_xfer dxpl" and "n < maxpow"
    and "eoa_asserted cfg file n" and "eoa_accepted cfg file n" and "read_accepted cfg file n"
    and "\<not> sig_at cfg file n"
  shows "search_loop cfg dxpl maxpow n file addr buf =
           search_loop cfg dxpl maxpow (Suc n) (after_probe cfg dxpl n file) (candidate n)
             (fetch (driver file) (candidate n + base_addr file) (unat (H5F_SIGNATURE_LEN cfg))
                @ drop (unat (H5F_SIGNATURE_LEN cfg)) buf)"
proof -
  from assms(7) have len: "H5F_SIGNATURE_LEN cfg \<noteq> 0"
    by (rule sig_at_length)
  show ?thesis
    using assms(3) probe_set_eoa [OF assms(1,4,5)] probe_read [OF assms(1,2) len assms(6)]
  proof (rule search_loop_next)
    show "HDmemcmp
        (fetch (driver file) (candidate n + base_addr file) (unat (H5F_SIGNATURE_LEN cfg))
           @ drop (unat (H5F_SIGNATURE_LEN cfg)) buf)
        (H5F_SIGNATURE cfg) (H5F_SIGNATURE_LEN cfg) \<noteq> 0"
      using assms(7) by (simp add: memcmp_fetched)
  qed
qed

lemma probe_match:
  assumes "cls file = store_cls" and "isa_dataset_xfer dxpl" and "n < maxpow"
    and "eoa_asserted cfg file n" and "eoa_accepted cfg file n" and "read_accepted cfg file n"
    and "sig_at cfg file n" and "H5F_SIGNATURE_LEN cfg \<noteq> 0"
  shows "search_loop cfg dxpl maxpow n file addr buf =
           (Inr (n, candidate n), after_probe cfg dxpl n file)"
  using assms(3) probe_set_eoa [OF assms(1,4,5)] probe_read [OF assms(1,2,8,6)]
proof (rule search_loop_match)
  show "HDmemcmp
      (fetch (driver file) (candidate n + base_addr file) (unat (H5F_SIGNATURE_LEN cfg))
         @ drop (unat (H5F_SIGNATURE_LEN cfg)) buf)
      (H5F_SIGNATURE cfg) (H5F_SIGNATURE_LEN cfg) = 0"
    using assms(7) by (simp add: memcmp_fetched)
qed

lemma probe_eoa_rejected:
  assumes "cls file = store_cls" and "n < maxpow"
    and "eoa_asserted cfg file n" and "\<not> eoa_accepted cfg file n"
  shows "search_loop cfg dxpl maxpow n file addr buf =
           (Inl (H5E_error H5E_IO H5E_CANTINIT),
            file\<lparr>calls := calls file @ [Call_set_eoa H5FD_MEM_SUPER
                     (candidate n + H5F_SIGNATURE_LEN cfg + base_addr file)]\<rparr>)"
proof -
  have "H5FD_set_eoa cfg file H5FD_MEM_SUPER (candidate n + H5F_SIGNATURE_LEN cfg) =
      (Inl (H5E_error H5E_VFL H5E_CANTINIT),
       file\<lparr>calls := calls file @ [Call_set_eoa H5FD_MEM_SUPER
                (candidate n + H5F_SIGNATURE_LEN cfg + base_addr file)]\<rparr>)"
    using assms
    by (intro store_set_eoa_rejected) (simp_all add: eoa_asserted_def eoa_accepted_def)
  from search_loop_set_eoa_fails [OF assms(2) this] show ?thesis
    by simp
qed

lemma probe_read_rejected:
  assumes "cls file = store_cls" and "isa_dataset_xfer dxpl" and "n < maxpow"
    and "eoa_asserted cfg file n" and "eoa_accepted cfg file n"
    and "\<not> read_accepted cfg file n" and "H5F_SIGNATURE_LEN cfg \<noteq> 0"
  shows "search_loop cfg dxpl maxpow n file addr buf =
           (Inl (H5E_error H5E_IO H5E_CANTINIT),
            (if candidate n + H5F_SIGNATURE_LEN cfg + base_addr file = HADDR_UNDEF
             then (after_probe cfg dxpl n file)
                    \<lparr>calls := calls file @ [Call_set_eoa H5FD_MEM_SUPER
                        (candidate n + H5F_SIGNATURE_LEN cfg + base_addr file),
                       Call_get_eoa H5FD_MEM_SUPER]\<rparr>
             else after_probe cfg dxpl n file))"
proof -
  let ?g = "file\<lparr>driver := (driver file)\<lparr>st_eoa := (st_eoa (driver file))
                     (H5FD_MEM_SUPER := candidate n + H5F_SIGNATURE_LEN cfg + base_addr file)\<rparr>,
                 calls := calls file @ [Call_set_eoa H5FD_MEM_SUPER
                     (candidate n + H5F_SIGNATURE_LEN cfg + base_addr file)]\<rparr>"
  note s = probe_set_eoa [OF assms(1,4,5)]
  show ?thesis
  proof (cases "candidate n + H5F_SIGNATURE_LEN cfg + base_addr file = HADDR_UNDEF")
    case True
    have "H5FD_read cfg ?g dxpl H5FD_MEM_SUPER (candidate n) (H5F_SIGNATURE_LEN cfg) buf =
        (Inl (H5E_error H5E_VFL H5E_CANTINIT), buf,
         ?g\<lparr>calls := calls ?g @ [Call_get_eoa H5FD_MEM_SUPER]\<rparr>)"
      using assms True by (intro store_read_eoa_undefined) simp_all
    from search_loop_read_fails [OF assms(3) s this] True show ?thesis
      by (simp add: after_probe_def)
  next
    case False
    with assms(6) have nr: "\<not> st_readable (driver file) (candidate n + base_addr file)
        (H5F_SIGNATURE_LEN cfg)"
      by (simp add: read_accepted_def)
    have "H5FD_read cfg ?g dxpl H5FD_MEM_SUPER (candidate n) (H5F_SIGNATURE_LEN cfg) buf =
        (Inl (H5E_error H5E_VFL H5E_READERROR), buf,
         ?g\<lparr>calls := calls ?g @ [Call_get_eoa H5FD_MEM_SUPER,
              Call_read H5FD_MEM_SUPER (plist_id dxpl) (candidate n + base_addr ?g)
                (H5F_SIGNATURE_LEN cfg)]\<rparr>)"
      using assms False nr
      by (intro store_read_rejected) (simp_all add: add.commute add.left_commute)
    from search_loop_read_fails [OF assms(3) s this] False show ?thesis
      by (simp add: after_probe_def)
  qed
qed

text \<open>
  A probe changes the end of allocated address and the trace, nothing else.
\<close>

lemma after_probe_fields:
  "cls (after_probe cfg dxpl n file) = cls file"
  "base_addr (after_probe cfg dxpl n file) = base_addr file"
  "maxaddr (after_probe cfg dxpl n file) = maxaddr file"
  "st_eoa (driver (after_probe cfg dxpl n file)) H5FD_MEM_SUPER =
     candidate n + H5F_SIGNATURE_LEN cfg + base_addr file"
  by (simp_all add: after_probe_def)

lemma after_probe_tests:
  "eoa_asserted cfg (after_probe cfg dxpl n file) m = eoa_asserted cfg file m"
  "eoa_accepted cfg (after_probe cfg dxpl n file) m = eoa_accepted cfg file m"
  "read_accepted cfg (after_probe cfg dxpl n file) m = read_accepted cfg file m"
  "sig_at cfg (after_probe cfg dxpl n file) m = sig_at cfg file m"
  by (simp_all add: after_probe_def eoa_asserted_def eoa_accepted_def read_accepted_def
      sig_at_def fetch_def)

lemma after_probes_fields:
  "cls (fold (after_probe cfg dxpl) ns file) = cls file
   \<and> base_addr (fold (after_probe cfg dxpl) ns file) = base_addr file
   \<and> maxaddr (fold (after_probe cfg dxpl) ns file) = maxaddr file"
  by (induction ns arbitrary: "file") (simp_all add: after_probe_fields)

lemma after_probes_tests:
  "eoa_asserted cfg (fold (after_probe cfg dxpl) ns file) m = eoa_asserted cfg file m
   \<and> eoa_accepted cfg (fold (after_probe cfg dxpl) ns file) m = eoa_accepted cfg file m
   \<and> read_accepted cfg (fold (after_probe cfg dxpl) ns file) m = read_accepted cfg file m
   \<and> sig_at cfg (fold (after_probe cfg dxpl) ns file) m = sig_at cfg file m"
  by (induction ns arbitrary: "file") (simp_all add: after_probe_tests)

lemma after_probes_store:
  "st_accepts (driver (fold (after_probe cfg dxpl) ns file)) = st_accepts (driver file)"
  by (induction ns arbitrary: "file") (simp_all add: after_probe_def)

lemma after_probes_eoa:
  assumes "n < k"
  shows "st_eoa (driver (fold (after_probe cfg dxpl) [n..<k] file)) H5FD_MEM_SUPER =
           candidate (k - 1) + H5F_SIGNATURE_LEN cfg + base_addr file"
proof -
  from assms obtain j where k: "k = Suc j" and j: "n \<le> j"
    by (cases k) auto
  then have "[n..<k] = [n..<j] @ [j]"
    by simp
  then show ?thesis
    using k by (simp add: after_probe_fields after_probes_fields)
qed

lemma tests_ignore_calls:
  "eoa_asserted cfg (file\<lparr>calls := cs\<rparr>) m = eoa_asserted cfg file m"
  "eoa_accepted cfg (file\<lparr>calls := cs\<rparr>) m = eoa_accepted cfg file m"
  "read_accepted cfg (file\<lparr>calls := cs\<rparr>) m = read_accepted cfg file m"
  "sig_at cfg (file\<lparr>calls := cs\<rparr>) m = sig_at cfg file m"
  by (simp_all add: eoa_asserted_def eoa_accepted_def read_accepted_def sig_at_def)

text \<open>
  The loop over a range of indices at which both calls succeed and nothing matches.
\<close>

lemma clean_prefix:
  assumes "cls file = store_cls" and "isa_dataset_xfer dxpl" and "n \<le> k" and "k \<le> maxpow"
    and "\<forall>m\<in>{n..<k}. eoa_asserted cfg file m \<and> eoa_accepted cfg file m
           \<and> read_accepted cfg file m \<and> \<not> sig_at cfg file m"
  shows "\<exists>addr' buf'. search_loop cfg dxpl maxpow n file addr buf =
           search_loop cfg dxpl maxpow k (fold (after_probe cfg dxpl) [n..<k] file) addr' buf'"
  using assms(3,4,5)
proof (induction k rule: dec_induct)
  case base
  show ?case by (intro exI [of _ addr] exI [of _ buf]) simp
next
  case (step j)
  from step.prems have "j \<le> maxpow"
    and clean: "\<forall>m\<in>{n..<j}. eoa_asserted cfg file m \<and> eoa_accepted cfg file m
           \<and> read_accepted cfg file m \<and> \<not> sig_at cfg file m"
    by simp_all
  from step.IH [OF this] obtain addr' buf' where
    pre: "search_loop cfg dxpl maxpow n file addr buf =
      search_loop cfg dxpl maxpow j (fold (after_probe cfg dxpl) [n..<j] file) addr' buf'"
    by blast
  let ?g = "fold (after_probe cfg dxpl) [n..<j] file"
  from step.hyps step.prems have at_j: "eoa_asserted cfg file j" "eoa_accepted cfg file j"
    "read_accepted cfg file j" "\<not> sig_at cfg file j"
    by simp_all
  have g: "cls ?g = store_cls"
    using assms(1) by (simp add: after_probes_fields)
  from step.prems have lt: "j < maxpow" by simp
  have "search_loop cfg dxpl maxpow j ?g addr' buf' =
      search_loop cfg dxpl maxpow (Suc j) (after_probe cfg dxpl j ?g) (candidate j)
        (fetch (driver ?g) (candidate j + base_addr ?g) (unat (H5F_SIGNATURE_LEN cfg))
           @ drop (unat (H5F_SIGNATURE_LEN cfg)) buf')"
    using g assms(2) lt at_j by (intro probe_next) (simp_all add: after_probes_tests)
  moreover from step.hyps have "[n..<Suc j] = [n..<j] @ [j]"
    by simp
  ultimately show ?case
    using pre by (simp del: upt_Suc) blast
qed

subsection \<open>The outcomes of a search\<close>

lemma store_first_step:
  assumes "cls file = store_cls"
  shows "H5FD_get_eof file =
           (fst (H5FD_get_eof file), file\<lparr>calls := calls file @ [Call_get_eof]\<rparr>)"
    and "H5FD_get_eoa (file\<lparr>calls := calls file @ [Call_get_eof]\<rparr>) H5FD_MEM_SUPER =
           (fst (H5FD_get_eoa file H5FD_MEM_SUPER),
            file\<lparr>calls := calls file @ [Call_get_eof, Call_get_eoa H5FD_MEM_SUPER]\<rparr>)"
  using assms by (simp_all add: store_get_eof store_get_eoa)

lemma store_eoa_absolute:
  assumes "cls file = store_cls" and "fst (H5FD_get_eoa file type) \<noteq> HADDR_UNDEF"
  shows "st_eoa (driver file) type \<noteq> HADDR_UNDEF
         \<and> fst (H5FD_get_eoa file type) + base_addr file = st_eoa (driver file) type"
  using assms by (auto simp add: store_get_eoa split: if_splits)

lemma signature_maxpow_2048: "signature_maxpow 2048 = 12"
  by code_simp

lemma candidate_10: "candidate 10 = 1024"
  by (simp add: candidate_def)

text \<open>
  The search over a byte store that holds the signature at offset 1024.
\<close>

lemma locate_at_1024:
  assumes "cls file = store_cls" and "isa_dataset_xfer dxpl"
    and "fst (H5FD_get_eof file) = 2048"
    and "fst (H5FD_get_eoa file H5FD_MEM_SUPER) \<noteq> HADDR_UNDEF"
    and "\<forall>n\<in>{8, 9, 10}. eoa_asserted cfg file n \<and> eoa_accepted cfg file n
           \<and> read_accepted cfg file n"
    and "\<not> sig_at cfg file 8" and "\<not> sig_at cfg file 9" and "sig_at cfg file 10"
  shows "\<exists>file'. H5FD_locate_signature cfg file dxpl buf = (Inr 1024, file')
           \<and> cls file' = store_cls \<and> base_addr file' = base_addr file
           \<and> st_eoa (driver file') H5FD_MEM_SUPER =
               1024 + H5F_SIGNATURE_LEN cfg + base_addr file"
proof -
  let ?f2 = "file\<lparr>calls := calls file @ [Call_get_eof, Call_get_eoa H5FD_MEM_SUPER]\<rparr>"
  let ?F = "fold (after_probe cfg dxpl) [8..<10] ?f2"
  note first = store_first_step [OF assms(1)]
  have eof: "HADDR_UNDEF \<noteq> fst (H5FD_get_eof file)"
    using assms(3) by (simp add: HADDR_UNDEF_def)
  have mp: "signature_maxpow (fst (H5FD_get_eof file)) = 12"
    using assms(3) by (simp add: signature_maxpow_2048)
  have f2: "cls ?f2 = store_cls"
    using assms(1) by simp
  have "{8..<10} = {8, 9 :: nat}"
    by auto
  with assms(5,6,7)
  have clean: "\<forall>m\<in>{8..<10}. eoa_asserted cfg ?f2 m \<and> eoa_accepted cfg ?f2 m
      \<and> read_accepted cfg ?f2 m \<and> \<not> sig_at cfg ?f2 m"
    by (simp add: tests_ignore_calls)
  from clean_prefix [OF f2 assms(2) _ _ clean, of 12 0 buf]
  obtain addr' buf' where pre: "search_loop cfg dxpl 12 8 ?f2 0 buf =
      search_loop cfg dxpl 12 10 ?F addr' buf'"
    by auto
  from assms(6) have len: "H5F_SIGNATURE_LEN cfg \<noteq> 0"
    by (rule sig_at_length)
  have F: "cls ?F = store_cls" "base_addr ?F = base_addr file"
    using assms(1) by (simp_all add: after_probes_fields after_probe_fields)
  have "search_loop cfg dxpl 12 10 ?F addr' buf' =
      (Inr (10, candidate 10), after_probe cfg dxpl 10 ?F)"
    using F(1) assms(2,5,8) len
    by (intro probe_match)
      (simp_all add: after_probes_tests after_probe_tests tests_ignore_calls)
  with pre have loop: "search_loop cfg dxpl 12 8 ?f2 0 buf =
      (Inr (10, candidate 10), after_probe cfg dxpl 10 ?F)"
    by simp
  have "H5FD_locate_signature cfg file dxpl buf = (Inr (candidate 10), after_probe cfg dxpl 10 ?F)"
    using locate_search_breaks [OF first(1) eof first(2) assms(4) [symmetric], of cfg dxpl buf 10
        "candidate 10" "after_probe cfg dxpl 10 ?F"] loop mp
    by simp
  moreover have "cls (after_probe cfg dxpl 10 ?F) = store_cls"
    "base_addr (after_probe cfg dxpl 10 ?F) = base_addr file"
    "st_eoa (driver (after_probe cfg dxpl 10 ?F)) H5FD_MEM_SUPER =
       1024 + H5F_SIGNATURE_LEN cfg + base_addr file"
    using F by (simp_all only: after_probe_fields candidate_10)
  ultimately show ?thesis
    by (simp only: candidate_10) blast
qed

text \<open>
  Claim C4. Take a handle over a byte store with an end of file of 2048, whose bytes
  hold the signature at offset 1024 and not at the earlier candidates 0 and 512, and
  at which the probes of these three candidates are accepted (the assertion of
  \<^verbatim>\<open>H5FD_set_eoa\<close> holds and the driver accepts both calls). The search succeeds with
  \<open>sig_addr = 1024\<close>, and afterwards \<^verbatim>\<open>H5FD_get_eoa\<close> returns
  \<open>1024 + H5F_SIGNATURE_LEN\<close> for the superblock class: the candidate 2048 was never
  set. In the witness the store holds the signature at 1024 only.
\<close>

theorem signature_at_1024:
  assumes "cls file = store_cls" and "isa_dataset_xfer dxpl"
    and "fst (H5FD_get_eof file) = 2048"
    and "fst (H5FD_get_eoa file H5FD_MEM_SUPER) \<noteq> HADDR_UNDEF"
    and "\<forall>n\<in>{8, 9, 10}. eoa_asserted cfg file n \<and> eoa_accepted cfg file n
           \<and> read_accepted cfg file n"
    and "\<not> sig_at cfg file 8" and "\<not> sig_at cfg file 9" and "sig_at cfg file 10"
  shows "fst (H5FD_locate_signature cfg file dxpl buf) = Inr 1024
         \<and> fst (H5FD_get_eoa (snd (H5FD_locate_signature cfg file dxpl buf)) H5FD_MEM_SUPER) =
             1024 + H5F_SIGNATURE_LEN cfg"
proof -
  from locate_at_1024 [OF assms, of buf] obtain file' where
    r: "H5FD_locate_signature cfg file dxpl buf = (Inr 1024, file')"
    and f': "cls file' = store_cls" "base_addr file' = base_addr file"
      "st_eoa (driver file') H5FD_MEM_SUPER = 1024 + H5F_SIGNATURE_LEN cfg + base_addr file"
    by blast
  from assms(5) have "1024 + H5F_SIGNATURE_LEN cfg + base_addr file \<noteq> HADDR_UNDEF"
    by (simp add: read_accepted_def candidate_10)
  with f' have "fst (H5FD_get_eoa file' H5FD_MEM_SUPER) = 1024 + H5F_SIGNATURE_LEN cfg"
    by (simp add: store_get_eoa)
  with r show ?thesis by simp
qed

theorem signature_at_1024_witness:
  "cls (store_file 0 4096 (signed_store 1024 2048 0)) = store_cls
   \<and> isa_dataset_xfer xfer_plist
   \<and> fst (H5FD_get_eof (store_file 0 4096 (signed_store 1024 2048 0))) = 2048
   \<and> \<not> sig_at serial_build (store_file 0 4096 (signed_store 1024 2048 0)) 8
   \<and> \<not> sig_at serial_build (store_file 0 4096 (signed_store 1024 2048 0)) 9
   \<and> sig_at serial_build (store_file 0 4096 (signed_store 1024 2048 0)) 10
   \<and> \<not> sig_at serial_build (store_file 0 4096 (signed_store 1024 2048 0)) 11
   \<and> fst (H5FD_locate_signature serial_build (store_file 0 4096 (signed_store 1024 2048 0))
            xfer_plist (replicate 8 0)) = Inr 1024
   \<and> fst (H5FD_get_eoa
            (snd (H5FD_locate_signature serial_build (store_file 0 4096 (signed_store 1024 2048 0))
                    xfer_plist (replicate 8 0))) H5FD_MEM_SUPER) = 1032"
proof -
  let ?f = "store_file 0 4096 (signed_store 1024 2048 0)"
  have c: "cls ?f = store_cls"
    by (simp add: store_file_def)
  have x: "isa_dataset_xfer xfer_plist"
    by (simp add: xfer_plist_def)
  have e: "fst (H5FD_get_eof ?f) = 2048"
    by code_simp
  have a: "fst (H5FD_get_eoa ?f H5FD_MEM_SUPER) \<noteq> HADDR_UNDEF"
    by code_simp
  have p: "\<forall>n\<in>{8, 9, 10}. eoa_asserted serial_build ?f n \<and> eoa_accepted serial_build ?f n
      \<and> read_accepted serial_build ?f n"
    by code_simp
  have s8: "\<not> sig_at serial_build ?f 8"
    by code_simp
  have s9: "\<not> sig_at serial_build ?f 9"
    by code_simp
  have s10: "sig_at serial_build ?f 10"
    by code_simp
  have s11: "\<not> sig_at serial_build ?f 11"
    by code_simp
  have l: "1024 + H5F_SIGNATURE_LEN serial_build = 1032"
    by (simp add: serial_build_def)
  from signature_at_1024 [OF c x e a p s8 s9 s10, of "replicate 8 0"] c x e s8 s9 s10 s11 l
  show ?thesis by simp
qed

text \<open>
  The search over a byte store whose candidates do not match.
\<close>

lemma locate_absent:
  assumes "cls file = store_cls" and "isa_dataset_xfer dxpl"
    and "fst (H5FD_get_eof file) \<noteq> HADDR_UNDEF"
    and "fst (H5FD_get_eoa file H5FD_MEM_SUPER) \<noteq> HADDR_UNDEF"
    and "\<forall>n\<in>{8..<signature_maxpow (fst (H5FD_get_eof file))}.
           eoa_asserted cfg file n \<and> eoa_accepted cfg file n
           \<and> read_accepted cfg file n \<and> \<not> sig_at cfg file n"
    and "HDassert cfg (fst (H5FD_get_eoa file H5FD_MEM_SUPER) \<le> maxaddr file)"
    and "st_accepts (driver file) H5FD_MEM_SUPER (st_eoa (driver file) H5FD_MEM_SUPER)"
  shows "\<exists>file'. H5FD_locate_signature cfg file dxpl buf = (Inr HADDR_UNDEF, file')
           \<and> cls file' = store_cls \<and> base_addr file' = base_addr file
           \<and> st_eoa (driver file') H5FD_MEM_SUPER = st_eoa (driver file) H5FD_MEM_SUPER"
proof -
  let ?eof = "fst (H5FD_get_eof file)" and ?eoa = "fst (H5FD_get_eoa file H5FD_MEM_SUPER)"
  let ?mp = "signature_maxpow ?eof"
  let ?f2 = "file\<lparr>calls := calls file @ [Call_get_eof, Call_get_eoa H5FD_MEM_SUPER]\<rparr>"
  let ?F = "fold (after_probe cfg dxpl) [8..<?mp] ?f2"
  note first = store_first_step [OF assms(1)]
  from store_eoa_absolute [OF assms(1,4)]
  have abs: "?eoa + base_addr file = st_eoa (driver file) H5FD_MEM_SUPER"
    by simp
  have f2: "cls ?f2 = store_cls"
    using assms(1) by simp
  have m8: "8 \<le> ?mp"
    using signature_maxpow_bounds [of ?eof] by simp
  have clean: "\<forall>m\<in>{8..<?mp}. eoa_asserted cfg ?f2 m \<and> eoa_accepted cfg ?f2 m
      \<and> read_accepted cfg ?f2 m \<and> \<not> sig_at cfg ?f2 m"
    using assms(5) by (simp add: tests_ignore_calls)
  from clean_prefix [OF f2 assms(2) m8 order_refl clean, of 0 buf]
  obtain addr' buf' where "search_loop cfg dxpl ?mp 8 ?f2 0 buf =
      search_loop cfg dxpl ?mp ?mp ?F addr' buf'"
    by blast
  then have loop: "search_loop cfg dxpl ?mp 8 ?f2 0 buf = (Inr (?mp, addr'), ?F)"
    by (simp add: search_loop_exit)
  let ?f4 = "?F\<lparr>driver := (driver ?F)\<lparr>st_eoa := (st_eoa (driver ?F))
                     (H5FD_MEM_SUPER := ?eoa + base_addr ?F)\<rparr>,
                calls := calls ?F @ [Call_set_eoa H5FD_MEM_SUPER (?eoa + base_addr ?F)]\<rparr>"
  have F: "cls ?F = store_cls" "base_addr ?F = base_addr file" "maxaddr ?F = maxaddr file"
    using assms(1) by (simp_all add: after_probes_fields)
  have "st_accepts (driver ?F) H5FD_MEM_SUPER (?eoa + base_addr ?F)"
    using assms(7) abs F(2) by (simp add: after_probes_store)
  with F assms(4,6) have restore: "H5FD_set_eoa cfg ?F H5FD_MEM_SUPER ?eoa = (Inr (), ?f4)"
    by (intro store_set_eoa_accepted) (simp_all add: H5F_addr_defined_def HDassert_def)
  have "H5FD_locate_signature cfg file dxpl buf = (Inr HADDR_UNDEF, ?f4)"
    using locate_search_exhausted [OF first(1) assms(3) [symmetric] first(2)
        assms(4) [symmetric] loop order_refl restore]
    by simp
  moreover have "cls ?f4 = store_cls" "base_addr ?f4 = base_addr file"
    "st_eoa (driver ?f4) H5FD_MEM_SUPER = st_eoa (driver file) H5FD_MEM_SUPER"
    using F abs by simp_all
  ultimately show ?thesis
    by blast
qed

text \<open>
  Claim C5, as stated, fails: that no candidate matches and that the driver's
  \<^verbatim>\<open>set_eoa\<close> calls succeed is not enough. Over a store of zeros with an end of file of
  2048, whose driver accepts every \<^verbatim>\<open>set_eoa\<close> and reads only below 512, no candidate
  holds the signature, but the read of the candidate 512 fails: the search returns
  \<^verbatim>\<open>FAIL\<close>, not "no signature found", and leaves the end of allocated address of the
  superblock class at 520, not at the 100 it was at.
\<close>

theorem signature_absent_counterexample:
  "signature_maxpow
      (fst (H5FD_get_eof (store_file 0 4096 (read_limited_store 512 2048 100)))) = 12
   \<and> \<not> sig_at serial_build (store_file 0 4096 (read_limited_store 512 2048 100)) 8
   \<and> \<not> sig_at serial_build (store_file 0 4096 (read_limited_store 512 2048 100)) 9
   \<and> \<not> sig_at serial_build (store_file 0 4096 (read_limited_store 512 2048 100)) 10
   \<and> \<not> sig_at serial_build (store_file 0 4096 (read_limited_store 512 2048 100)) 11
   \<and> eoa_accepted serial_build (store_file 0 4096 (read_limited_store 512 2048 100)) 8
   \<and> eoa_accepted serial_build (store_file 0 4096 (read_limited_store 512 2048 100)) 9
   \<and> eoa_accepted serial_build (store_file 0 4096 (read_limited_store 512 2048 100)) 10
   \<and> eoa_accepted serial_build (store_file 0 4096 (read_limited_store 512 2048 100)) 11
   \<and> st_accepts (driver (store_file 0 4096 (read_limited_store 512 2048 100))) H5FD_MEM_SUPER
        (st_eoa (driver (store_file 0 4096 (read_limited_store 512 2048 100))) H5FD_MEM_SUPER)
   \<and> fst (H5FD_get_eoa (store_file 0 4096 (read_limited_store 512 2048 100))
            H5FD_MEM_SUPER) = 100
   \<and> fst (H5FD_locate_signature serial_build
            (store_file 0 4096 (read_limited_store 512 2048 100)) xfer_plist (replicate 8 0)) =
       Inl (H5E_error H5E_IO H5E_CANTINIT)
   \<and> fst (H5FD_get_eoa
            (snd (H5FD_locate_signature serial_build
                    (store_file 0 4096 (read_limited_store 512 2048 100)) xfer_plist
                    (replicate 8 0))) H5FD_MEM_SUPER) = 520"
  by code_simp

text \<open>
  Claim C5, amended. Take a handle over a byte store with a defined end of file and a
  defined end of allocated address for the superblock class, whose bytes match the
  signature at no candidate, and at which every call of the search succeeds: at each
  candidate the assertion of \<^verbatim>\<open>H5FD_set_eoa\<close> does not fire, the driver accepts the
  \<^verbatim>\<open>set_eoa\<close> and the read is accepted, and so is the final reset. The search returns
  \<^verbatim>\<open>SUCCEED\<close> with \<open>sig_addr = HADDR_UNDEF\<close>, and afterwards \<^verbatim>\<open>H5FD_get_eoa\<close> returns for
  the superblock class the relative address it returned before the search.
\<close>

theorem signature_absent:
  assumes "cls file = store_cls" and "isa_dataset_xfer dxpl"
    and "fst (H5FD_get_eof file) \<noteq> HADDR_UNDEF"
    and "fst (H5FD_get_eoa file H5FD_MEM_SUPER) \<noteq> HADDR_UNDEF"
    and "\<forall>n\<in>{8..<signature_maxpow (fst (H5FD_get_eof file))}.
           eoa_asserted cfg file n \<and> eoa_accepted cfg file n
           \<and> read_accepted cfg file n \<and> \<not> sig_at cfg file n"
    and "HDassert cfg (fst (H5FD_get_eoa file H5FD_MEM_SUPER) \<le> maxaddr file)"
    and "st_accepts (driver file) H5FD_MEM_SUPER (st_eoa (driver file) H5FD_MEM_SUPER)"
  shows "fst (H5FD_locate_signature cfg file dxpl buf) = Inr HADDR_UNDEF
         \<and> fst (H5FD_get_eoa (snd (H5FD_locate_signature cfg file dxpl buf)) H5FD_MEM_SUPER) =
             fst (H5FD_get_eoa file H5FD_MEM_SUPER)"
proof -
  from locate_absent [OF assms, of buf] obtain file' where
    r: "H5FD_locate_signature cfg file dxpl buf = (Inr HADDR_UNDEF, file')"
    and f': "cls file' = store_cls" "base_addr file' = base_addr file"
      "st_eoa (driver file') H5FD_MEM_SUPER = st_eoa (driver file) H5FD_MEM_SUPER"
    by blast
  have "fst (H5FD_get_eoa file' H5FD_MEM_SUPER) = fst (H5FD_get_eoa file H5FD_MEM_SUPER)"
    using f' assms(1) by (simp add: store_get_eoa)
  with r show ?thesis by simp
qed

theorem signature_absent_witness:
  "cls (store_file 512 4096 (blank_store 2560 600)) = store_cls
   \<and> isa_dataset_xfer xfer_plist
   \<and> fst (H5FD_get_eof (store_file 512 4096 (blank_store 2560 600))) = 2048
   \<and> fst (H5FD_get_eoa (store_file 512 4096 (blank_store 2560 600)) H5FD_MEM_SUPER) = 88
   \<and> signature_maxpow (fst (H5FD_get_eof (store_file 512 4096 (blank_store 2560 600)))) = 12
   \<and> fst (H5FD_locate_signature serial_build (store_file 512 4096 (blank_store 2560 600))
            xfer_plist (replicate 8 0)) = Inr HADDR_UNDEF
   \<and> fst (H5FD_get_eoa
            (snd (H5FD_locate_signature serial_build (store_file 512 4096 (blank_store 2560 600))
                    xfer_plist (replicate 8 0))) H5FD_MEM_SUPER) = 88"
proof -
  let ?f = "store_file 512 4096 (blank_store 2560 600)"
  have c: "cls ?f = store_cls"
    by (simp add: store_file_def)
  have x: "isa_dataset_xfer xfer_plist"
    by (simp add: xfer_plist_def)
  have e: "fst (H5FD_get_eof ?f) = 2048"
    by code_simp
  have a: "fst (H5FD_get_eoa ?f H5FD_MEM_SUPER) = 88"
    by code_simp
  have m: "signature_maxpow (fst (H5FD_get_eof ?f)) = 12"
    by code_simp
  have e': "fst (H5FD_get_eof ?f) \<noteq> HADDR_UNDEF"
    by code_simp
  have a': "fst (H5FD_get_eoa ?f H5FD_MEM_SUPER) \<noteq> HADDR_UNDEF"
    by code_simp
  have p: "\<forall>n\<in>{8..<signature_maxpow (fst (H5FD_get_eof ?f))}.
      eoa_asserted serial_build ?f n \<and> eoa_accepted serial_build ?f n
      \<and> read_accepted serial_build ?f n \<and> \<not> sig_at serial_build ?f n"
    by code_simp
  have le: "HDassert serial_build (fst (H5FD_get_eoa ?f H5FD_MEM_SUPER) \<le> maxaddr ?f)"
    by code_simp
  have acc: "st_accepts (driver ?f) H5FD_MEM_SUPER (st_eoa (driver ?f) H5FD_MEM_SUPER)"
    by code_simp
  from signature_absent [OF c x e' a' p le acc, of "replicate 8 0"] c x e a m
  show ?thesis by simp
qed

text \<open>
  The search over a byte store that rejects one of the two calls of a probe.
\<close>

lemma locate_probe_rejected:
  assumes "cls file = store_cls" and "isa_dataset_xfer dxpl"
    and "fst (H5FD_get_eof file) \<noteq> HADDR_UNDEF"
    and "fst (H5FD_get_eoa file H5FD_MEM_SUPER) \<noteq> HADDR_UNDEF"
    and "H5F_SIGNATURE_LEN cfg \<noteq> 0"
    and "8 \<le> k" and "k < signature_maxpow (fst (H5FD_get_eof file))"
    and "\<forall>n\<in>{8..<k}. eoa_asserted cfg file n \<and> eoa_accepted cfg file n
           \<and> read_accepted cfg file n \<and> \<not> sig_at cfg file n"
    and "eoa_asserted cfg file k"
    and "\<not> eoa_accepted cfg file k \<or> \<not> read_accepted cfg file k"
  shows "\<exists>file'. H5FD_locate_signature cfg file dxpl buf =
             (Inl (H5E_error H5E_IO H5E_CANTINIT), file')
           \<and> st_eoa (driver file') H5FD_MEM_SUPER =
               (if eoa_accepted cfg file k
                then candidate k + H5F_SIGNATURE_LEN cfg + base_addr file
                else if k = 8 then st_eoa (driver file) H5FD_MEM_SUPER
                else candidate (k - 1) + H5F_SIGNATURE_LEN cfg + base_addr file)
           \<and> last (calls file') =
               (if \<not> eoa_accepted cfg file k
                then Call_set_eoa H5FD_MEM_SUPER
                       (candidate k + H5F_SIGNATURE_LEN cfg + base_addr file)
                else if candidate k + H5F_SIGNATURE_LEN cfg + base_addr file = HADDR_UNDEF
                then Call_get_eoa H5FD_MEM_SUPER
                else Call_read H5FD_MEM_SUPER (plist_id dxpl) (candidate k + base_addr file)
                       (H5F_SIGNATURE_LEN cfg))"
proof -
  let ?mp = "signature_maxpow (fst (H5FD_get_eof file))"
  let ?f2 = "file\<lparr>calls := calls file @ [Call_get_eof, Call_get_eoa H5FD_MEM_SUPER]\<rparr>"
  let ?F = "fold (after_probe cfg dxpl) [8..<k] ?f2"
  let ?end = "candidate k + H5F_SIGNATURE_LEN cfg + base_addr file"
  note first = store_first_step [OF assms(1)]
  have f2: "cls ?f2 = store_cls"
    using assms(1) by simp
  have clean: "\<forall>m\<in>{8..<k}. eoa_asserted cfg ?f2 m \<and> eoa_accepted cfg ?f2 m
      \<and> read_accepted cfg ?f2 m \<and> \<not> sig_at cfg ?f2 m"
    using assms(8) by (simp add: tests_ignore_calls)
  from assms(7) have kle: "k \<le> ?mp" by simp
  from clean_prefix [OF f2 assms(2,6) kle clean, of 0 buf]
  obtain addr' buf' where pre: "search_loop cfg dxpl ?mp 8 ?f2 0 buf =
      search_loop cfg dxpl ?mp k ?F addr' buf'"
    by blast
  have F: "cls ?F = store_cls" "base_addr ?F = base_addr file"
    using assms(1) by (simp_all add: after_probes_fields)
  have Ft: "eoa_asserted cfg ?F k" "eoa_accepted cfg ?F k = eoa_accepted cfg file k"
    "read_accepted cfg ?F k = read_accepted cfg file k"
    using assms(9) by (simp_all add: after_probes_tests tests_ignore_calls)
  have Feoa: "st_eoa (driver ?F) H5FD_MEM_SUPER =
      (if k = 8 then st_eoa (driver file) H5FD_MEM_SUPER
       else candidate (k - 1) + H5F_SIGNATURE_LEN cfg + base_addr file)"
  proof (cases "k = 8")
    case True
    then show ?thesis by simp
  next
    case False
    with assms(6) have "8 < k" by simp
    from after_probes_eoa [OF this, of cfg dxpl ?f2] False show ?thesis
      by simp
  qed
  note fails = locate_search_fails [OF first(1) assms(3) [symmetric] first(2)
      assms(4) [symmetric], of cfg dxpl buf]
  show ?thesis
  proof (cases "eoa_accepted cfg file k")
    case False
    let ?f' = "?F\<lparr>calls := calls ?F @ [Call_set_eoa H5FD_MEM_SUPER
                     (candidate k + H5F_SIGNATURE_LEN cfg + base_addr ?F)]\<rparr>"
    from False Ft have "\<not> eoa_accepted cfg ?F k"
      by simp
    from probe_eoa_rejected [OF F(1) assms(7) Ft(1) this, of dxpl addr' buf'] pre
    have "search_loop cfg dxpl ?mp 8 ?f2 0 buf = (Inl (H5E_error H5E_IO H5E_CANTINIT), ?f')"
      by simp
    from fails [OF this]
    have "H5FD_locate_signature cfg file dxpl buf = (Inl (H5E_error H5E_IO H5E_CANTINIT), ?f')" .
    moreover have "st_eoa (driver ?f') H5FD_MEM_SUPER =
        (if k = 8 then st_eoa (driver file) H5FD_MEM_SUPER
         else candidate (k - 1) + H5F_SIGNATURE_LEN cfg + base_addr file)"
      using Feoa by simp
    moreover have "last (calls ?f') = Call_set_eoa H5FD_MEM_SUPER ?end"
      using F(2) by simp
    ultimately show ?thesis
      using False by (intro exI [of _ ?f']) simp
  next
    case True
    with assms(10) Ft have acc: "eoa_accepted cfg ?F k" and rej: "\<not> read_accepted cfg ?F k"
      by simp_all
    let ?f' = "if candidate k + H5F_SIGNATURE_LEN cfg + base_addr ?F = HADDR_UNDEF
        then (after_probe cfg dxpl k ?F)
               \<lparr>calls := calls ?F @ [Call_set_eoa H5FD_MEM_SUPER
                   (candidate k + H5F_SIGNATURE_LEN cfg + base_addr ?F),
                  Call_get_eoa H5FD_MEM_SUPER]\<rparr>
        else after_probe cfg dxpl k ?F"
    from probe_read_rejected [OF F(1) assms(2,7) Ft(1) acc rej assms(5), of addr' buf'] pre
    have "search_loop cfg dxpl ?mp 8 ?f2 0 buf = (Inl (H5E_error H5E_IO H5E_CANTINIT), ?f')"
      by simp
    from fails [OF this]
    have "H5FD_locate_signature cfg file dxpl buf = (Inl (H5E_error H5E_IO H5E_CANTINIT), ?f')" .
    moreover have "st_eoa (driver ?f') H5FD_MEM_SUPER = ?end"
      using F(2) by (simp add: after_probe_def)
    moreover have "last (calls ?f') =
        (if ?end = HADDR_UNDEF then Call_get_eoa H5FD_MEM_SUPER
         else Call_read H5FD_MEM_SUPER (plist_id dxpl) (candidate k + base_addr file)
                (H5F_SIGNATURE_LEN cfg))"
      using F(2) by (simp add: after_probe_def)
    ultimately show ?thesis
      using True by (intro exI [of _ ?f']) simp
  qed
qed

text \<open>
  Claim C10. Take a handle over a byte store and an index \<open>k\<close> of the loop such that the
  probes before \<open>k\<close> are accepted without a match, and at \<open>k\<close> the driver rejects the
  \<^verbatim>\<open>set_eoa\<close>, or accepts it and the read then fails. The search returns \<^verbatim>\<open>FAIL\<close>
  with \<^verbatim>\<open>H5E_IO\<close>/\<^verbatim>\<open>H5E_CANTINIT\<close>, and the failing callback is the last one in the trace:
  nothing is probed or reset after it. The end of allocated address of the superblock
  class stays where the last successful \<^verbatim>\<open>set_eoa\<close> put it: at the end of candidate
  \<open>k\<close> when the read failed, at the end of candidate \<open>k - 1\<close> when the \<^verbatim>\<open>set_eoa\<close> at
  \<open>k > 8\<close> failed, and at its initial value only when the very first \<^verbatim>\<open>set_eoa\<close>
  failed. The addresses are the absolute ones of the driver. In the witness the
  initial value is 100 and the search leaves 520.
\<close>

theorem search_failure_leaves_eoa:
  assumes "cls file = store_cls" and "isa_dataset_xfer dxpl"
    and "fst (H5FD_get_eof file) \<noteq> HADDR_UNDEF"
    and "fst (H5FD_get_eoa file H5FD_MEM_SUPER) \<noteq> HADDR_UNDEF"
    and "H5F_SIGNATURE_LEN cfg \<noteq> 0"
    and "8 \<le> k" and "k < signature_maxpow (fst (H5FD_get_eof file))"
    and "\<forall>n\<in>{8..<k}. eoa_asserted cfg file n \<and> eoa_accepted cfg file n
           \<and> read_accepted cfg file n \<and> \<not> sig_at cfg file n"
    and "eoa_asserted cfg file k"
    and "\<not> eoa_accepted cfg file k \<or> \<not> read_accepted cfg file k"
  shows "fst (H5FD_locate_signature cfg file dxpl buf) = Inl (H5E_error H5E_IO H5E_CANTINIT)
         \<and> st_eoa (driver (snd (H5FD_locate_signature cfg file dxpl buf))) H5FD_MEM_SUPER =
             (if eoa_accepted cfg file k
              then candidate k + H5F_SIGNATURE_LEN cfg + base_addr file
              else if k = 8 then st_eoa (driver file) H5FD_MEM_SUPER
              else candidate (k - 1) + H5F_SIGNATURE_LEN cfg + base_addr file)
         \<and> last (calls (snd (H5FD_locate_signature cfg file dxpl buf))) =
             (if \<not> eoa_accepted cfg file k
              then Call_set_eoa H5FD_MEM_SUPER
                     (candidate k + H5F_SIGNATURE_LEN cfg + base_addr file)
              else if candidate k + H5F_SIGNATURE_LEN cfg + base_addr file = HADDR_UNDEF
              then Call_get_eoa H5FD_MEM_SUPER
              else Call_read H5FD_MEM_SUPER (plist_id dxpl) (candidate k + base_addr file)
                     (H5F_SIGNATURE_LEN cfg))"
proof -
  from locate_probe_rejected [OF assms, of buf] obtain file' where
    "H5FD_locate_signature cfg file dxpl buf = (Inl (H5E_error H5E_IO H5E_CANTINIT), file')"
    and "st_eoa (driver file') H5FD_MEM_SUPER =
      (if eoa_accepted cfg file k
       then candidate k + H5F_SIGNATURE_LEN cfg + base_addr file
       else if k = 8 then st_eoa (driver file) H5FD_MEM_SUPER
       else candidate (k - 1) + H5F_SIGNATURE_LEN cfg + base_addr file)"
    and "last (calls file') =
      (if \<not> eoa_accepted cfg file k
       then Call_set_eoa H5FD_MEM_SUPER (candidate k + H5F_SIGNATURE_LEN cfg + base_addr file)
       else if candidate k + H5F_SIGNATURE_LEN cfg + base_addr file = HADDR_UNDEF
       then Call_get_eoa H5FD_MEM_SUPER
       else Call_read H5FD_MEM_SUPER (plist_id dxpl) (candidate k + base_addr file)
              (H5F_SIGNATURE_LEN cfg))"
    by blast
  then show ?thesis
    by simp
qed

theorem search_failure_leaves_eoa_witness:
  "\<not> eoa_accepted serial_build
       (store_file 0 4096 ((blank_store 2048 100)\<lparr>st_accepts := (\<lambda>t a. a \<le> 600)\<rparr>)) 10
   \<and> fst (H5FD_locate_signature serial_build
            (store_file 0 4096 ((blank_store 2048 100)\<lparr>st_accepts := (\<lambda>t a. a \<le> 600)\<rparr>))
            xfer_plist (replicate 8 0)) = Inl (H5E_error H5E_IO H5E_CANTINIT)
   \<and> st_eoa (driver (snd (H5FD_locate_signature serial_build
            (store_file 0 4096 ((blank_store 2048 100)\<lparr>st_accepts := (\<lambda>t a. a \<le> 600)\<rparr>))
            xfer_plist (replicate 8 0)))) H5FD_MEM_SUPER = 520
   \<and> last (calls (snd (H5FD_locate_signature serial_build
            (store_file 0 4096 ((blank_store 2048 100)\<lparr>st_accepts := (\<lambda>t a. a \<le> 600)\<rparr>))
            xfer_plist (replicate 8 0)))) = Call_set_eoa H5FD_MEM_SUPER 1032
   \<and> \<not> read_accepted serial_build
       (store_file 0 4096 ((blank_store 2048 100)\<lparr>st_readable := (\<lambda>a s. a < 512)\<rparr>)) 9
   \<and> fst (H5FD_locate_signature serial_build
            (store_file 0 4096 ((blank_store 2048 100)\<lparr>st_readable := (\<lambda>a s. a < 512)\<rparr>))
            xfer_plist (replicate 8 0)) = Inl (H5E_error H5E_IO H5E_CANTINIT)
   \<and> st_eoa (driver (snd (H5FD_locate_signature serial_build
            (store_file 0 4096 ((blank_store 2048 100)\<lparr>st_readable := (\<lambda>a s. a < 512)\<rparr>))
            xfer_plist (replicate 8 0)))) H5FD_MEM_SUPER = 520
   \<and> last (calls (snd (H5FD_locate_signature serial_build
            (store_file 0 4096 ((blank_store 2048 100)\<lparr>st_readable := (\<lambda>a s. a < 512)\<rparr>))
            xfer_plist (replicate 8 0)))) = Call_read H5FD_MEM_SUPER 5 512 8"
proof -
  let ?f = "store_file 0 4096 ((blank_store 2048 100)\<lparr>st_accepts := (\<lambda>t a. a \<le> 600)\<rparr>)"
  let ?g = "store_file 0 4096 ((blank_store 2048 100)\<lparr>st_readable := (\<lambda>a s. a < 512)\<rparr>)"
  have x: "isa_dataset_xfer xfer_plist"
    by (simp add: xfer_plist_def)
  have len: "H5F_SIGNATURE_LEN serial_build \<noteq> 0"
    by (simp add: serial_build_def)
  have cf: "cls ?f = store_cls" and cg: "cls ?g = store_cls"
    by (simp_all add: store_file_def)
  have f: "fst (H5FD_get_eof ?f) \<noteq> HADDR_UNDEF"
    "fst (H5FD_get_eoa ?f H5FD_MEM_SUPER) \<noteq> HADDR_UNDEF"
    "10 < signature_maxpow (fst (H5FD_get_eof ?f))"
    "\<forall>n\<in>{8..<10}. eoa_asserted serial_build ?f n \<and> eoa_accepted serial_build ?f n
       \<and> read_accepted serial_build ?f n \<and> \<not> sig_at serial_build ?f n"
    "eoa_asserted serial_build ?f 10"
    "\<not> eoa_accepted serial_build ?f 10"
    by code_simp+
  have g: "fst (H5FD_get_eof ?g) \<noteq> HADDR_UNDEF"
    "fst (H5FD_get_eoa ?g H5FD_MEM_SUPER) \<noteq> HADDR_UNDEF"
    "9 < signature_maxpow (fst (H5FD_get_eof ?g))"
    "\<forall>n\<in>{8..<9}. eoa_asserted serial_build ?g n \<and> eoa_accepted serial_build ?g n
       \<and> read_accepted serial_build ?g n \<and> \<not> sig_at serial_build ?g n"
    "eoa_asserted serial_build ?g 9"
    "eoa_accepted serial_build ?g 9"
    "\<not> read_accepted serial_build ?g 9"
    by code_simp+
  from search_failure_leaves_eoa [OF cf x f(1,2) len _ f(3,4,5), of "replicate 8 0"] f(6)
    search_failure_leaves_eoa [OF cg x g(1,2) len _ g(3,4,5), of "replicate 8 0"] g(6,7)
  show ?thesis
    by (simp add: candidate_def store_file_def serial_build_def xfer_plist_def HADDR_UNDEF_def)
qed

end
